theory Spec2Isabelle
  imports Complex_Main "HOL-Library.Sublist"
begin

section \<open>Numeric and string conventions\<close>

text \<open>
  Python floats (and numpy float64 arrays) are modelled as mathematical reals and
  lists of reals: the development is about the formulas the program evaluates,
  not about binary rounding.  Exceptions are values of the type \<open>error\<close>.
\<close>

datatype error = RuntimeError string | ZeroDivisionError | ValueError | IndexError

text \<open>Python's \<open>round(x, ndigits)\<close>: nearest multiple of \<open>10^(-ndigits)\<close>, ties to even.\<close>

definition round_half_even :: "real \<Rightarrow> int" where
  "round_half_even x =
     (let f = \<lfloor>x\<rfloor>; d = x - of_int f
      in if d < 1 / 2 then f else if 1 / 2 < d then f + 1
         else if even f then f else f + 1)"

definition py_round :: "real \<Rightarrow> nat \<Rightarrow> real" where
  "py_round x ndigits = of_int (round_half_even (x * 10 ^ ndigits)) / 10 ^ ndigits"

text \<open>\<open>str.lower()\<close> on ASCII text.\<close>

definition lower_char :: "char \<Rightarrow> char" where
  "lower_char c =
     (let n = (of_char c :: nat) in if 65 \<le> n \<and> n \<le> 90 then char_of (n + 32) else c)"

definition lower :: "string \<Rightarrow> string" where
  "lower s = map lower_char s"

text \<open>\<open>np.linspace(start, stop, num)\<close> with the end point included.\<close>

definition linspace :: "real \<Rightarrow> real \<Rightarrow> nat \<Rightarrow> real list" where
  "linspace start stop num =
     (if num = 1 then [start]
      else map (\<lambda>k. start + real k * ((stop - start) / real (num - 1))) [0..<num])"

section \<open>physics\_engine.py: the analytic solver and the transfer planner\<close>

record planet =
  el_a :: real
  el_e :: real
  el_i :: real
  el_period :: real
  el_color :: string
  el_mass :: real

definition SOLAR_SYSTEM :: "string \<Rightarrow> planet option" where
  "SOLAR_SYSTEM = map_of
    [(''mercury'', \<lparr>el_a = 0.387, el_e = 0.2056, el_i = 7.00, el_period = 87.97,
                    el_color = ''#b5b5b5'', el_mass = 0.055\<rparr>),
     (''venus'',   \<lparr>el_a = 0.723, el_e = 0.0067, el_i = 3.39, el_period = 224.70,
                    el_color = ''#e8cda0'', el_mass = 0.815\<rparr>),
     (''earth'',   \<lparr>el_a = 1.000, el_e = 0.0167, el_i = 0.00, el_period = 365.25,
                    el_color = ''#4fffb0'', el_mass = 1.000\<rparr>),
     (''mars'',    \<lparr>el_a = 1.524, el_e = 0.0934, el_i = 1.85, el_period = 686.97,
                    el_color = ''#ff6b35'', el_mass = 0.107\<rparr>),
     (''jupiter'', \<lparr>el_a = 5.203, el_e = 0.0489, el_i = 1.30, el_period = 4332.59,
                    el_color = ''#c88b3a'', el_mass = 317.8\<rparr>),
     (''saturn'',  \<lparr>el_a = 9.537, el_e = 0.0565, el_i = 2.49, el_period = 10759.2,
                    el_color = ''#e4d191'', el_mass = 95.2\<rparr>),
     (''uranus'',  \<lparr>el_a = 19.19, el_e = 0.0457, el_i = 0.77, el_period = 30688.5,
                    el_color = ''#7de8e8'', el_mass = 14.5\<rparr>),
     (''neptune'', \<lparr>el_a = 30.07, el_e = 0.0113, el_i = 1.77, el_period = 60182.0,
                    el_color = ''#3f54ba'', el_mass = 17.1\<rparr>)]"

subsection \<open>compute\_hohmann\<close>



subsection \<open>solve\_kepler and compute\_orbit\<close>

text \<open>
  One pass of the \<open>for _ in range(100)\<close> loop of \<open>solve_kepler\<close> on the whole sample
  vector: the corrections \<open>dE\<close>, the update \<open>E += dE\<close>, and the test on
  \<open>np.max(np.abs(dE))\<close>, which raises \<open>ValueError\<close> on an empty array.  The first argument
  counts the passes that are left.
\<close>

fun kepler_loop :: "nat \<Rightarrow> real list \<Rightarrow> real \<Rightarrow> real \<Rightarrow> real list \<Rightarrow> error + real list" where
  "kepler_loop 0 M e tol E = Inr E"
| "kepler_loop (Suc k) M e tol E =
     (let dE = map2 (\<lambda>m x. (m - x + e * sin x) / (1 - e * cos x)) M E;
          E' = map2 (\<lambda>x d. x + d) E dE
      in if dE = [] then Inl ValueError
         else if Max (set (map abs dE)) < tol then Inr E'
         else kepler_loop k M e tol E')"

definition solve_kepler :: "real list \<Rightarrow> real \<Rightarrow> real \<Rightarrow> error + real list" where
  "solve_kepler M e tol = kepler_loop 100 M e tol M"

text \<open>
  The Newton-Raphson iteration in the specification's words, to compare the loop
  with: the update \<open>E += (M - E + e * sin E) / (1 - e * cos E)\<close> of every sample, and the
  maximum absolute correction over all samples.
\<close>

definition newton_step :: "real list \<Rightarrow> real \<Rightarrow> real list \<Rightarrow> real list" where
  "newton_step M e E = map2 (\<lambda>m x. x + (m - x + e * sin x) / (1 - e * cos x)) M E"

definition max_correction :: "real list \<Rightarrow> real \<Rightarrow> real list \<Rightarrow> real" where
  "max_correction M e E =
     Max (set (map2 (\<lambda>m x. \<bar>(m - x + e * sin x) / (1 - e * cos x)\<bar>) M E))"

text \<open>\<open>np.arctan2(y, x)\<close>: the angle of the point \<open>(x, y)\<close> in \<open>(-pi, pi]\<close>.\<close>

definition arctan2 :: "real \<Rightarrow> real \<Rightarrow> real" where
  "arctan2 y x =
     (if 0 < x then arctan (y / x)
      else if x < 0 then (if 0 \<le> y then arctan (y / x) + pi else arctan (y / x) - pi)
      else if 0 < y then pi / 2
      else if y < 0 then - (pi / 2)
      else 0)"

text \<open>The half-angle arctangent form of the true anomaly, in the specification's
  words, to compare \<open>compute_orbit\<close> with.\<close>

definition half_angle_true_anomaly :: "real \<Rightarrow> real \<Rightarrow> real" where
  "half_angle_true_anomaly e E =
     2 * arctan2 (sqrt (1 + e) * sin (E / 2)) (sqrt (1 - e) * cos (E / 2))"

record orbit_elements =
  semi_major_axis_au :: real
  eccentricity :: real
  period_days :: real
  perihelion_au :: real
  aphelion_au :: real
  max_speed_au_day :: real
  min_speed_au_day :: real

record orbit =
  orb_body :: string
  orb_x :: "real list"
  orb_y :: "real list"
  orb_r :: "real list"
  orb_v :: "real list"
  orb_t :: "real list"
  orb_color :: string
  orb_elements :: orbit_elements

text \<open>
  \<open>compute_orbit\<close> returns \<open>None\<close> for an unknown body.  \<open>np.linspace\<close> raises
  \<open>ValueError\<close> for a negative sample count, and with no sample at all the maximum in
  \<open>solve_kepler\<close> raises it.
\<close>

definition compute_orbit :: "string \<Rightarrow> real \<Rightarrow> int \<Rightarrow> error + orbit option" where
  "compute_orbit body_name duration_days steps =
     (case SOLAR_SYSTEM (lower body_name) of
        None \<Rightarrow> Inr None
      | Some body \<Rightarrow>
          if steps < 0 then Inl ValueError
          else
            (let a = el_a body;
                 e = el_e body;
                 period = el_period body;
                 t = linspace 0 duration_days (nat steps);
                 M = map (\<lambda>t. 2 * pi * t / period) t
             in case solve_kepler M e (1 / 10 ^ 10) of
                  Inl err \<Rightarrow> Inl err
                | Inr E \<Rightarrow>
                    (let nu = map (\<lambda>E. 2 * arctan2 (sqrt (1 + e) * sin (E / 2))
                                                    (sqrt (1 - e) * cos (E / 2))) E;
                         r = map (\<lambda>nu. a * (1 - e ^ 2) / (1 + e * cos nu)) nu;
                         x = map2 (\<lambda>r nu. r * cos nu) r nu;
                         y = map2 (\<lambda>r nu. r * sin nu) r nu;
                         GM = 4 * pi ^ 2;
                         v = map (\<lambda>r. sqrt (GM * (2 / r - 1 / a)) * (365.25 / (2 * pi))) r
                     in Inr (Some \<lparr>orb_body = body_name, orb_x = x, orb_y = y, orb_r = r,
                          orb_v = v, orb_t = t, orb_color = el_color body,
                          orb_elements = \<lparr>semi_major_axis_au = a, eccentricity = e,
                            period_days = py_round period 2,
                            perihelion_au = py_round (a * (1 - e)) 4,
                            aphelion_au = py_round (a * (1 + e)) 4,
                            max_speed_au_day = py_round (Max (set v)) 6,
                            min_speed_au_day = py_round (Min (set v)) 6\<rparr>\<rparr>))))"

section \<open>scenario\_validator.py: the velocity validator\<close>

text \<open>
  A body and a scenario are dictionaries read with \<open>.get(key, default)\<close>; every key may be
  missing, so every field is an option.  The numeric keys hold numbers.
\<close>

record body =
  b_name :: "string option"
  b_mass :: "real option"
  b_x :: "real option"
  b_y :: "real option"
  b_vx :: "real option"
  b_vy :: "real option"
  b_color :: "string option"
  b_radius :: "real option"
  b_type :: "string option"

record scenario =
  sc_name :: "string option"
  sc_description :: "string option"
  sc_units :: "string option"
  sc_integrator :: "string option"
  sc_t_per_frame :: "real option"
  sc_scale :: "real option"
  sc_softening :: "real option"
  sc_dt :: "real option"
  sc_bodies :: "body list option"

definition dict_get :: "'a option \<Rightarrow> 'a \<Rightarrow> 'a" where
  "dict_get entry dflt = (case entry of None \<Rightarrow> dflt | Some v \<Rightarrow> v)"

text \<open>Decimal text of a natural number, for the default names \<open>f"Body-{i}"\<close>.\<close>

function str_of_nat :: "nat \<Rightarrow> string" where
  "str_of_nat n =
     (if n < 10 then [char_of (48 + n)]
      else str_of_nat (n div 10) @ [char_of (48 + n mod 10)])"
  by pat_completeness auto
termination
  by (relation "measure id") auto

declare str_of_nat.simps [simp del]

definition G_SOLAR :: real where
  "G_SOLAR = 4 * pi ^ 2"

definition circular_orbit_velocity :: "real \<Rightarrow> real \<Rightarrow> real" where
  "circular_orbit_velocity mass_central radius =
     (if radius \<le> 0 \<or> mass_central \<le> 0 then 0
      else sqrt (G_SOLAR * mass_central / radius))"

definition escape_velocity :: "real \<Rightarrow> real \<Rightarrow> real" where
  "escape_velocity mass_central radius =
     (if radius \<le> 0 \<or> mass_central \<le> 0 then 0
      else sqrt (2 * G_SOLAR * mass_central / radius))"

text \<open>
  The entries of the \<open>issues\<close> list are formatted strings in the source.  They are kept
  here as the data the strings are formatted from: a warning (the strings that start
  with the warning sign) carries the body's name and the problem with its quantities,
  and a fix notice (the strings with the check mark and \<open>FIXED\<close>) carries the name and
  the circular speed that was set.
\<close>

datatype problem =
    TOO_SLOW real real
  | TOO_FAST real real
  | SUSPICIOUS real real real

datatype issue =
    Warning string problem
  | Fixed string real

text \<open>\<open>i.startswith(warning sign)\<close> and \<open>"FIXED" in i\<close> on the formatted strings: the
  text around the name of a warning has no \<open>FIXED\<close> in it, the name may.\<close>

fun is_warning :: "issue \<Rightarrow> bool" where
  "is_warning (Warning name p) = True"
| "is_warning (Fixed name v) = False"

fun has_FIXED :: "issue \<Rightarrow> bool" where
  "has_FIXED (Warning name p) = sublist ''FIXED'' name"
| "has_FIXED (Fixed name v) = True"

text \<open>
  The \<open>if\<close>/\<open>elif\<close> chain that sets \<open>problem\<close> and \<open>fix_needed\<close>: \<open>fix_needed\<close> is true
  exactly when a problem is set, so the result \<open>Some problem\<close> stands for both.  The
  quotient \<open>ratio = v_current / v_circular\<close> raises \<open>ZeroDivisionError\<close> on a zero
  divisor.
\<close>

definition velocity_problem :: "real \<Rightarrow> real \<Rightarrow> real \<Rightarrow> error + problem option" where
  "velocity_problem v_current v_circular v_escape =
     (if v_current < v_circular * 0.3 then Inr (Some (TOO_SLOW v_current v_circular))
      else if v_current > v_escape * 1.5 then Inr (Some (TOO_FAST v_current v_escape))
      else if \<bar>v_current - v_circular\<bar> > v_circular * 0.5 then
        (if v_circular = 0 then Inl ZeroDivisionError
         else
           (let ratio = v_current / v_circular
            in if ratio < 0.7 \<or> ratio > 1.4
               then Inr (Some (SUSPICIOUS v_current v_circular ratio))
               else Inr None))
      else Inr None)"

text \<open>
  The body of the loop \<open>for i, body in enumerate(bodies[1:], start=1)\<close>: the issues it
  appends and the body it appends to \<open>fixed_bodies\<close>.
\<close>

definition check_body :: "real \<Rightarrow> bool \<Rightarrow> nat \<Rightarrow> body \<Rightarrow> error + (issue list \<times> body)" where
  "check_body M_primary auto_fix i body =
     (let name = dict_get (b_name body) (''Body-'' @ str_of_nat i);
          x = dict_get (b_x body) 0;
          y = dict_get (b_y body) 0;
          vx = dict_get (b_vx body) 0;
          vy = dict_get (b_vy body) 0;
          r = sqrt (x ^ 2 + y ^ 2)
      in if r < 1 / 10 ^ 10 then Inr ([], body)
         else
           (let v_current = sqrt (vx ^ 2 + vy ^ 2);
                v_circular = circular_orbit_velocity M_primary r;
                v_escape = escape_velocity M_primary r
            in case velocity_problem v_current v_circular v_escape of
                 Inl err \<Rightarrow> Inl err
               | Inr None \<Rightarrow> Inr ([], body)
               | Inr (Some problem) \<Rightarrow>
                   if auto_fix then
                     (let r_len = sqrt (x ^ 2 + y ^ 2);
                          new_vx = (- y / r_len) * v_circular;
                          new_vy = (x / r_len) * v_circular
                      in Inr ([Warning name problem, Fixed name v_circular],
                              body\<lparr>b_vx := Some new_vx, b_vy := Some new_vy\<rparr>))
                   else Inr ([Warning name problem], body)))"

fun validate_loop ::
  "real \<Rightarrow> bool \<Rightarrow> nat \<Rightarrow> body list \<Rightarrow> issue list \<Rightarrow> body list \<Rightarrow> error + (issue list \<times> body list)"
where
  "validate_loop M_primary auto_fix i [] issues fixed_bodies = Inr (issues, fixed_bodies)"
| "validate_loop M_primary auto_fix i (body # rest) issues fixed_bodies =
     (case check_body M_primary auto_fix i body of
        Inl err \<Rightarrow> Inl err
      | Inr (new_issues, fixed_body) \<Rightarrow>
          validate_loop M_primary auto_fix (Suc i) rest
            (issues @ new_issues) (fixed_bodies @ [fixed_body]))"

record stats =
  total_bodies :: nat
  issues_found :: nat
  issues_fixed :: nat

record validation =
  res_ok :: bool
  res_issues :: "issue list"
  res_scenario :: scenario
  res_stats :: "stats option"

definition validate_and_fix_scenario :: "scenario \<Rightarrow> bool \<Rightarrow> error + validation" where
  "validate_and_fix_scenario scenario auto_fix =
     (let bodies = dict_get (sc_bodies scenario) []
      in if length bodies < 2
         then Inr \<lparr>res_ok = True, res_issues = [], res_scenario = scenario, res_stats = None\<rparr>
         else
           (let primary = hd bodies;
                M_primary = dict_get (b_mass primary) 1
            in case validate_loop M_primary auto_fix 1 (tl bodies) [] [primary] of
                 Inl err \<Rightarrow> Inl err
               | Inr (issues, fixed_bodies) \<Rightarrow>
                   Inr \<lparr>res_ok = (length (filter is_warning issues) = 0),
                        res_issues = issues,
                        res_scenario = scenario\<lparr>sc_bodies := Some fixed_bodies\<rparr>,
                        res_stats = Some \<lparr>total_bodies = length bodies,
                          issues_found = length (filter is_warning issues),
                          issues_fixed = length (filter has_FIXED issues)\<rparr>\<rparr>))"

text \<open>
  \<open>smart_validate_scenario\<close> returns its result and may print one line; the printed
  lines are the first component.  \<open>masses.sort(key=..., reverse=True)\<close> is a stable sort
  by decreasing mass.
\<close>

definition smart_validate_scenario :: "scenario \<Rightarrow> bool \<Rightarrow> string list \<times> (error + validation)" where
  "smart_validate_scenario scenario verbose =
     (let bodies = dict_get (sc_bodies scenario) []
      in if length bodies < 2
         then ([], Inr \<lparr>res_ok = True, res_issues = [], res_scenario = scenario,
                        res_stats = None\<rparr>)
         else
           (let masses = sort_key (\<lambda>(i, m). - m)
                           (map (\<lambda>(i, b). (i, dict_get (b_mass b) 0)) (enumerate 0 bodies));
                primary_idx = fst (hd masses);
                primary = bodies ! primary_idx;
                M_primary = dict_get (b_mass primary) 1
            in if length masses \<ge> 2 \<and> snd (masses ! 1) > M_primary * 0.3
               then ((if verbose
                      then [''  Detected multi-star system - using relaxed validation'']
                      else []),
                     validate_and_fix_scenario scenario True)
               else ([], validate_and_fix_scenario scenario True)))"

text \<open>
  The scenario of the correction example: \<open>EXAMPLE_BAD_SCENARIOS["moon_falling"]\<close> of the
  source, with the primary mass \<open>3.003e-6\<close> that the specification's example uses (the
  source's entry has \<open>3e-6\<close>).
\<close>

definition earth_body :: body where
  "earth_body = \<lparr>b_name = Some ''Earth'', b_mass = Some (3.003 / 10 ^ 6),
       b_x = Some 0, b_y = Some 0, b_vx = Some 0, b_vy = Some 0,
       b_color = None, b_radius = None, b_type = None\<rparr>"

definition moon_body :: body where
  "moon_body = \<lparr>b_name = Some ''Moon'', b_mass = Some (3.7 / 10 ^ 8),
       b_x = Some 0.00257, b_y = Some 0, b_vx = Some 0, b_vy = Some 6.396,
       b_color = None, b_radius = None, b_type = None\<rparr>"

definition moon_falling :: scenario where
  "moon_falling = \<lparr>sc_name = Some ''Earth-Moon (BROKEN)'', sc_description = None,
       sc_units = None, sc_integrator = None, sc_t_per_frame = None, sc_scale = None,
       sc_softening = None, sc_dt = None, sc_bodies = Some [earth_body, moon_body]\<rparr>"

text \<open>The binary star scenario of the source's own test 5.\<close>

definition binary_stars :: scenario where
  "binary_stars = \<lparr>sc_name = Some ''Binary Stars'', sc_description = None,
       sc_units = None, sc_integrator = None, sc_t_per_frame = None, sc_scale = None,
       sc_softening = None, sc_dt = None,
       sc_bodies = Some
         [\<lparr>b_name = Some ''Star A'', b_mass = Some 1.0, b_x = Some 1.5, b_y = Some 0,
           b_vx = Some 0, b_vy = Some 3.5, b_color = None, b_radius = None, b_type = None\<rparr>,
          \<lparr>b_name = Some ''Star B'', b_mass = Some 0.8, b_x = Some (- 1.5), b_y = Some 0,
           b_vx = Some 0, b_vy = Some (- 4.4), b_color = None, b_radius = None,
           b_type = None\<rparr>]\<rparr>"

section \<open>rebound\_engine.py: the simulation session\<close>

text \<open>
  The REBOUND simulation is an external object that the engine holds by reference and
  that \<open>integrate\<close> mutates in place.  Simulations therefore live in a store (a list,
  the address is the index); \<open>copy\<close> allocates a new cell.  The integrator itself, the
  energy and the orbit computation are services outside this repository: they are
  parameters of the methods that call them.  An address an engine holds is allocated.
\<close>

record particle =
  p_m :: real
  p_x :: real
  p_y :: real
  p_vx :: real
  p_vy :: real

record sim =
  sim_t :: real
  sim_particles :: "particle list"

type_synonym store = "sim list"

definition sim_N :: "sim \<Rightarrow> nat" where
  "sim_N s = length (sim_particles s)"


definition sim_integrate :: "(sim \<Rightarrow> real \<Rightarrow> sim) \<Rightarrow> store \<Rightarrow> nat \<Rightarrow> real \<Rightarrow> store" where
  "sim_integrate integ h a tmax = h[a := integ (h ! a) tmax]"

record body_info =
  bi_name :: string
  bi_color :: string
  bi_radius :: real
  bi_type :: string

text \<open>The engine's fields that the methods below read (\<open>meta\<close>, \<open>bodies\<close> and
  \<open>initial_scenario\<close> are not among them).\<close>

record engine =
  eng_sim :: "nat option"
  eng_body_info :: "body_info list"
  eng_t_per_frame :: real
  eng_scale :: real
  eng_E0 :: real

definition init_engine :: engine where
  "init_engine = \<lparr>eng_sim = None, eng_body_info = [], eng_t_per_frame = 0.01,
                   eng_scale = 1.0, eng_E0 = 0.0\<rparr>"

record body_state =
  bs_name :: string
  bs_x :: real
  bs_y :: real
  bs_vx :: real
  bs_vy :: real
  bs_speed :: real
  bs_mass :: real
  bs_color :: string
  bs_radius :: real
  bs_type :: string

record frame =
  f_t :: real
  f_N :: nat
  f_bodies :: "body_state list"
  f_energy_drift :: real

definition get_frame :: "(sim \<Rightarrow> real) \<Rightarrow> store \<Rightarrow> engine \<Rightarrow> frame" where
  "get_frame energy h self =
     (case eng_sim self of
        None \<Rightarrow> \<lparr>f_t = 0.0, f_N = 0, f_bodies = [], f_energy_drift = 0.0\<rparr>
      | Some a \<Rightarrow>
          (let s = h ! a;
               bodies = map (\<lambda>(i, p).
                  let info = (if i < length (eng_body_info self)
                              then Some (eng_body_info self ! i) else None);
                      speed = sqrt (p_vx p ^ 2 + p_vy p ^ 2)
                  in \<lparr>bs_name = (case info of Some d \<Rightarrow> bi_name d
                                   | None \<Rightarrow> ''Body-'' @ str_of_nat i),
                      bs_x = py_round (p_x p) 6,
                      bs_y = py_round (p_y p) 6,
                      bs_vx = py_round (p_vx p) 6,
                      bs_vy = py_round (p_vy p) 6,
                      bs_speed = py_round speed 6,
                      bs_mass = py_round (p_m p) 9,
                      bs_color = (case info of Some d \<Rightarrow> bi_color d | None \<Rightarrow> ''#ffffff''),
                      bs_radius = (case info of Some d \<Rightarrow> bi_radius d | None \<Rightarrow> 5),
                      bs_type = (case info of Some d \<Rightarrow> bi_type d | None \<Rightarrow> ''planet'')\<rparr>)
                 (enumerate 0 (sim_particles s));
               E_now = energy s;
               drift = (if eng_E0 self \<noteq> 0 then \<bar>(E_now - eng_E0 self) / eng_E0 self\<bar> else 0.0)
           in \<lparr>f_t = py_round (sim_t s) 6, f_N = sim_N s, f_bodies = bodies,
               f_energy_drift = py_round drift 12\<rparr>))"

definition step ::
  "(sim \<Rightarrow> real \<Rightarrow> sim) \<Rightarrow> (sim \<Rightarrow> real) \<Rightarrow> store \<Rightarrow> engine \<Rightarrow> real \<Rightarrow> store \<times> (error + frame)"
where
  "step integ energy h self n_frames =
     (case eng_sim self of
        None \<Rightarrow>
          (h, Inl (RuntimeError
             ''No simulation loaded. Call load_scenario() or load_from_horizons() first.''))
      | Some a \<Rightarrow>
          (let h' = sim_integrate integ h a (sim_t (h ! a) + eng_t_per_frame self * n_frames)
           in (h', Inr (get_frame energy h' self))))"

text \<open>
  \<open>p.orbit(primary=primary)\<close> either returns the osculating elements or raises; the
  service is a function to \<open>string + rebound_orbit\<close>, the string being \<open>str(e)\<close> of the
  exception.
\<close>

record rebound_orbit =
  o_a :: real
  o_e :: real
  o_inc :: real
  o_Omega :: real
  o_omega :: real
  o_f :: real
  o_P :: real
  o_n :: real

record elements =
  oe_name :: string
  oe_a :: real
  oe_e :: real
  oe_inc :: real
  oe_Omega :: real
  oe_omega :: real
  oe_f :: real
  oe_P :: real
  oe_n :: real

datatype element_entry =
    Elements elements
  | ElementError string string

definition get_orbital_elements ::
  "(particle \<Rightarrow> particle \<Rightarrow> string + rebound_orbit) \<Rightarrow> store \<Rightarrow> engine \<Rightarrow> element_entry list"
where
  "get_orbital_elements orbit_of h self =
     (case eng_sim self of
        None \<Rightarrow> []
      | Some a \<Rightarrow>
          if sim_N (h ! a) < 2 then []
          else
            (let primary = sim_particles (h ! a) ! 0
             in map (\<lambda>i.
                  let p = sim_particles (h ! a) ! i;
                      name = (if i < length (eng_body_info self)
                              then bi_name (eng_body_info self ! i)
                              else ''Body-'' @ str_of_nat i)
                  in case orbit_of p primary of
                       Inr orb \<Rightarrow>
                         Elements \<lparr>oe_name = name,
                           oe_a = py_round (o_a orb) 6,
                           oe_e = py_round (o_e orb) 6,
                           oe_inc = py_round (o_inc orb * 180 / pi) 3,
                           oe_Omega = py_round (o_Omega orb * 180 / pi) 3,
                           oe_omega = py_round (o_omega orb * 180 / pi) 3,
                           oe_f = py_round (o_f orb * 180 / pi) 3,
                           oe_P = py_round (o_P orb) 6,
                           oe_n = py_round (o_n orb) 6\<rparr>
                     | Inl msg \<Rightarrow> ElementError name msg)
                [1..<sim_N (h ! a)]))"




text \<open>
  A stand-in for the integration service, used to run the methods on concrete data:
  every particle moves uniformly along its velocity up to the requested time.
\<close>

definition drift_integrator :: "sim \<Rightarrow> real \<Rightarrow> sim" where
  "drift_integrator s tmax =
     \<lparr>sim_t = tmax,
      sim_particles = map (\<lambda>p. p\<lparr>p_x := p_x p + p_vx p * (tmax - sim_t s),
                                 p_y := p_y p + p_vy p * (tmax - sim_t s)\<rparr>) (sim_particles s)\<rparr>"

text \<open>
  A stand-in for the orbit service, and a loaded session to run the methods on: a
  primary, a planet on a near-circular orbit and a probe at the primary's own
  position, for which the stand-in service fails.
\<close>

definition sample_orbit_service :: "particle \<Rightarrow> particle \<Rightarrow> string + rebound_orbit" where
  "sample_orbit_service p primary =
     (let d = sqrt ((p_x p - p_x primary) ^ 2 + (p_y p - p_y primary) ^ 2)
      in if d = 0 then Inl ''radial distance of zero from primary''
         else Inr \<lparr>o_a = d, o_e = 0, o_inc = 0, o_Omega = 0, o_omega = 0, o_f = 0,
                   o_P = 1, o_n = 2 * pi\<rparr>)"

definition three_body_sim :: sim where
  "three_body_sim = \<lparr>sim_t = 0, sim_particles =
     [\<lparr>p_m = 1, p_x = 0, p_y = 0, p_vx = 0, p_vy = 0\<rparr>,
      \<lparr>p_m = 3 / 10 ^ 6, p_x = 1, p_y = 0, p_vx = 0, p_vy = 6.28\<rparr>,
      \<lparr>p_m = 1 / 10 ^ 15, p_x = 0, p_y = 0, p_vx = 1, p_vy = 0\<rparr>]\<rparr>"

definition loaded_engine :: engine where
  "loaded_engine = \<lparr>eng_sim = Some 0,
     eng_body_info =
       [\<lparr>bi_name = ''Sun'', bi_color = ''#fff200'', bi_radius = 20, bi_type = ''star''\<rparr>,
        \<lparr>bi_name = ''Earth'', bi_color = ''#4fffb0'', bi_radius = 7, bi_type = ''planet''\<rparr>,
        \<lparr>bi_name = ''Probe'', bi_color = ''#ffffff'', bi_radius = 3, bi_type = ''debris''\<rparr>],
     eng_t_per_frame = 0.01, eng_scale = 200.0, eng_E0 = 1\<rparr>"

section \<open>Properties of the transfer planner\<close>











section \<open>Properties of the velocity validator\<close>

subsection \<open>The loop body\<close>

lemma G_SOLAR_pos: "0 < G_SOLAR"
  by (simp add: G_SOLAR_def)

lemma circular_orbit_velocity_nonneg: "0 \<le> circular_orbit_velocity M r"
  using G_SOLAR_pos by (simp add: circular_orbit_velocity_def not_le)

lemma escape_velocity_nonneg: "0 \<le> escape_velocity M r"
  using G_SOLAR_pos by (simp add: escape_velocity_def not_le)

lemma circular_le_escape: "circular_orbit_velocity M r \<le> escape_velocity M r"
proof (cases "r \<le> 0 \<or> M \<le> 0")
  case True
  then show ?thesis
    by (auto simp: circular_orbit_velocity_def escape_velocity_def)
next
  case False
  define a where "a = G_SOLAR * M / r"
  have "0 < a"
    using False G_SOLAR_pos by (simp add: a_def)
  then have "sqrt a \<le> sqrt (2 * a)"
    by simp
  moreover have "2 * G_SOLAR * M / r = 2 * a"
    by (simp add: a_def)
  ultimately show ?thesis
    using False by (simp add: circular_orbit_velocity_def escape_velocity_def a_def)
qed

lemma escape_zero_if_circular_zero:
  "circular_orbit_velocity M r = 0 \<Longrightarrow> escape_velocity M r = 0"
  using G_SOLAR_pos
  by (auto simp: circular_orbit_velocity_def escape_velocity_def split: if_splits)

lemma velocity_problem_total:
  assumes "0 \<le> v"
  shows "\<exists>p. velocity_problem v (circular_orbit_velocity M r) (escape_velocity M r) = Inr p"
proof (cases "circular_orbit_velocity M r = 0")
  case True
  then have "escape_velocity M r = 0"
    by (rule escape_zero_if_circular_zero)
  with True assms show ?thesis
    by (simp add: velocity_problem_def)
next
  case False
  then show ?thesis
    by (simp add: velocity_problem_def Let_def)
qed

lemma velocity_problem_circular:
  "velocity_problem (circular_orbit_velocity M r) (circular_orbit_velocity M r)
     (escape_velocity M r) = Inr None"
  using circular_orbit_velocity_nonneg [of M r] circular_le_escape [of M r]
  by (simp add: velocity_problem_def)

lemma dict_get_simps [simp]: "dict_get None d = d" "dict_get (Some v) d = v"
  by (simp_all add: dict_get_def)

lemma check_body_unfold:
  assumes "x = dict_get (b_x b) 0" and "y = dict_get (b_y b) 0"
      and "vx = dict_get (b_vx b) 0" and "vy = dict_get (b_vy b) 0"
      and "r = sqrt (x\<^sup>2 + y\<^sup>2)" and "v = sqrt (vx\<^sup>2 + vy\<^sup>2)"
      and "name = dict_get (b_name b) (''Body-'' @ str_of_nat i)"
  shows "check_body M af i b =
     (if r < 1 / 10 ^ 10 then Inr ([], b)
      else case velocity_problem v (circular_orbit_velocity M r) (escape_velocity M r) of
             Inl err \<Rightarrow> Inl err
           | Inr None \<Rightarrow> Inr ([], b)
           | Inr (Some p) \<Rightarrow>
               if af then Inr ([Warning name p, Fixed name (circular_orbit_velocity M r)],
                    b\<lparr>b_vx := Some (- y / r * circular_orbit_velocity M r),
                      b_vy := Some (x / r * circular_orbit_velocity M r)\<rparr>)
               else Inr ([Warning name p], b))"
  unfolding check_body_def Let_def assms by (rule refl)

lemma check_body_total: "\<exists>iss b'. check_body M af i b = Inr (iss, b')"
proof -
  define r where "r = sqrt ((dict_get (b_x b) 0)\<^sup>2 + (dict_get (b_y b) 0)\<^sup>2)"
  define v where "v = sqrt ((dict_get (b_vx b) 0)\<^sup>2 + (dict_get (b_vy b) 0)\<^sup>2)"
  obtain p where "velocity_problem v (circular_orbit_velocity M r) (escape_velocity M r) = Inr p"
    using velocity_problem_total [of v] by (auto simp: v_def)
  then show ?thesis
    unfolding check_body_unfold [OF refl refl refl refl r_def v_def refl]
    by (cases p) simp_all
qed

lemma perpendicular_speed:
  assumes "0 < r" and "r = sqrt (x\<^sup>2 + y\<^sup>2)" and "0 \<le> (c::real)"
  shows "sqrt ((- y / r * c)\<^sup>2 + (x / r * c)\<^sup>2) = c"
proof -
  have rr: "r\<^sup>2 = x\<^sup>2 + y\<^sup>2"
    by (simp add: assms(2))
  have "(- y / r * c)\<^sup>2 + (x / r * c)\<^sup>2 = (x\<^sup>2 + y\<^sup>2) * c\<^sup>2 / r\<^sup>2"
    by (simp add: power_mult_distrib power_divide add_divide_distrib ring_distribs mult.commute)
  also have "\<dots> = c\<^sup>2"
    using assms(1) by (simp add: rr [symmetric])
  finally show ?thesis
    using assms(3) by simp
qed

lemma check_body_stable:
  assumes "check_body M True i b = Inr (iss, b')"
  shows "check_body M True j b' = Inr ([], b')"
proof -
  define x where "x = dict_get (b_x b) 0"
  define y where "y = dict_get (b_y b) 0"
  define r where "r = sqrt (x\<^sup>2 + y\<^sup>2)"
  define v where "v = sqrt ((dict_get (b_vx b) 0)\<^sup>2 + (dict_get (b_vy b) 0)\<^sup>2)"
  define c where "c = circular_orbit_velocity M r"
  note first = check_body_unfold [OF x_def y_def refl refl r_def v_def refl, of M True i]
  show ?thesis
  proof (cases "r < 1 / 10 ^ 10")
    case True
    then have "b' = b" using assms first by simp
    moreover have "check_body M True j b = Inr ([], b)"
      using True check_body_unfold [OF x_def y_def refl refl r_def v_def refl, of M True j]
      by simp
    ultimately show ?thesis by simp
  next
    case far: False
    have "(0::real) < 1 / 10 ^ 10" by simp
    with far have r_pos: "0 < r" by linarith
    obtain p where p: "velocity_problem v (circular_orbit_velocity M r) (escape_velocity M r) = Inr p"
      using velocity_problem_total [of v] by (auto simp: v_def)
    show ?thesis
    proof (cases p)
      case None
      then have "b' = b" using assms first far p by simp
      moreover have "check_body M True j b = Inr ([], b)"
        using far p None check_body_unfold [OF x_def y_def refl refl r_def v_def refl, of M True j]
        by simp
      ultimately show ?thesis by simp
    next
      case (Some q)
      have b': "b' = b\<lparr>b_vx := Some (- y / r * c), b_vy := Some (x / r * c)\<rparr>"
        using assms first far p Some by (simp add: c_def)
      have x': "x = dict_get (b_x b') 0" and y': "y = dict_get (b_y b') 0"
        by (simp_all add: b' x_def y_def)
      have v': "c = sqrt ((dict_get (b_vx b') 0)\<^sup>2 + (dict_get (b_vy b') 0)\<^sup>2)"
        using perpendicular_speed [OF r_pos r_def, of c] circular_orbit_velocity_nonneg [of M r]
        by (simp add: b' c_def)
      show ?thesis
        using far velocity_problem_circular [of M r]
        unfolding check_body_unfold [OF x' y' refl refl r_def v' refl, of M True j]
        by (simp add: c_def)
    qed
  qed
qed

subsection \<open>The loop and the whole validator\<close>

lemma validate_loop_eq:
  "validate_loop M af i bs iss fx =
     Inr (iss @ concat (map (\<lambda>(j, b). fst (projr (check_body M af j b))) (enumerate i bs)),
          fx @ map (\<lambda>(j, b). snd (projr (check_body M af j b))) (enumerate i bs))"
proof (induction bs arbitrary: i iss fx)
  case Nil
  show ?case by simp
next
  case (Cons b bs)
  obtain new b' where "check_body M af i b = Inr (new, b')"
    using check_body_total by blast
  then show ?case
    by (simp add: Cons.IH)
qed

lemma second_pass_bodies:
  "map (\<lambda>(j, b). snd (projr (check_body M True j b)))
       (enumerate i (map (\<lambda>(j, b). snd (projr (check_body M True j b))) (enumerate i bs)))
   = map (\<lambda>(j, b). snd (projr (check_body M True j b))) (enumerate i bs)"
proof (induction bs arbitrary: i)
  case Nil
  show ?case by simp
next
  case (Cons b bs)
  obtain new b' where b': "check_body M True i b = Inr (new, b')"
    using check_body_total by blast
  have "check_body M True i b' = Inr ([], b')"
    using b' by (rule check_body_stable)
  then show ?case
    using b' by (simp add: Cons.IH)
qed

lemma second_pass_issues:
  "concat (map (\<lambda>(j, b). fst (projr (check_body M True j b)))
       (enumerate i (map (\<lambda>(j, b). snd (projr (check_body M True j b))) (enumerate i bs))))
   = []"
proof (induction bs arbitrary: i)
  case Nil
  show ?case by simp
next
  case (Cons b bs)
  obtain new b' where b': "check_body M True i b = Inr (new, b')"
    using check_body_total by blast
  have "check_body M True i b' = Inr ([], b')"
    using b' by (rule check_body_stable)
  then show ?case
    using b' Cons.IH [of "Suc i"] by simp
qed

lemma validate_few_bodies:
  assumes "length (dict_get (sc_bodies s) []) < 2"
  shows "validate_and_fix_scenario s af =
           Inr \<lparr>res_ok = True, res_issues = [], res_scenario = s, res_stats = None\<rparr>"
  using assms by (simp add: validate_and_fix_scenario_def)

lemma validate_unfold:
  assumes "sc_bodies s = Some bs" and "2 \<le> length bs"
  shows "\<exists>ok st. validate_and_fix_scenario s af =
     Inr \<lparr>res_ok = ok,
          res_issues = concat (map (\<lambda>(j, b). fst (projr (check_body (dict_get (b_mass (hd bs)) 1) af j b)))
                                 (enumerate 1 (tl bs))),
          res_scenario = s\<lparr>sc_bodies := Some (hd bs #
             map (\<lambda>(j, b). snd (projr (check_body (dict_get (b_mass (hd bs)) 1) af j b)))
                 (enumerate 1 (tl bs)))\<rparr>,
          res_stats = st\<rparr>"
  using assms by (simp add: validate_and_fix_scenario_def validate_loop_eq Let_def)

text \<open>
  Claim C2.  The validator is idempotent: for every scenario, validating (with
  \<open>auto_fix\<close>) the scenario that a first validation returned reports no issue and
  returns that scenario unchanged.
\<close>

theorem validator_idempotent:
  "\<exists>first second.
      validate_and_fix_scenario s True = Inr first
    \<and> validate_and_fix_scenario (res_scenario first) True = Inr second
    \<and> res_issues second = []
    \<and> res_ok second
    \<and> res_scenario second = res_scenario first"
proof (cases "length (dict_get (sc_bodies s) []) < 2")
  case True
  then show ?thesis
    by (simp add: validate_few_bodies)
next
  case False
  then obtain bs where bs: "sc_bodies s = Some bs" and len: "2 \<le> length bs"
    by (cases "sc_bodies s") auto
  define M where "M = dict_get (b_mass (hd bs)) 1"
  define fixed where
    "fixed = map (\<lambda>(j, b). snd (projr (check_body M True j b))) (enumerate 1 (tl bs))"
  obtain ok st where first: "validate_and_fix_scenario s True =
      Inr \<lparr>res_ok = ok,
           res_issues = concat (map (\<lambda>(j, b). fst (projr (check_body M True j b)))
                                 (enumerate 1 (tl bs))),
           res_scenario = s\<lparr>sc_bodies := Some (hd bs # fixed)\<rparr>, res_stats = st\<rparr>"
    using validate_unfold [OF bs len, of True] unfolding M_def fixed_def by blast
  have bs2: "sc_bodies (s\<lparr>sc_bodies := Some (hd bs # fixed)\<rparr>) = Some (hd bs # fixed)"
    by simp
  have "length fixed = length bs - 1"
    by (simp add: fixed_def)
  then have len2: "fixed \<noteq> []"
    using len by auto
  have again: "map (\<lambda>(j, b). snd (projr (check_body M True j b))) (enumerate 1 fixed) = fixed"
    unfolding fixed_def by (rule second_pass_bodies)
  have quiet: "concat (map (\<lambda>(j, b). fst (projr (check_body M True j b))) (enumerate 1 fixed)) = []"
    unfolding fixed_def by (rule second_pass_issues)
  have "validate_and_fix_scenario (s\<lparr>sc_bodies := Some (hd bs # fixed)\<rparr>) True =
      Inr \<lparr>res_ok = True, res_issues = [],
           res_scenario = s\<lparr>sc_bodies := Some (hd bs # fixed)\<rparr>,
           res_stats = Some \<lparr>total_bodies = length (hd bs # fixed), issues_found = 0,
                              issues_fixed = 0\<rparr>\<rparr>"
    using len2 again quiet
    by (simp add: validate_and_fix_scenario_def validate_loop_eq M_def [symmetric] Let_def
                  del: concat_eq_Nil_conv)
  then show ?thesis
    using first by simp
qed

subsection \<open>Bounds on \<open>pi\<close> and the example's speeds\<close>

lemma sin_taylor_7:
  fixes x :: real
  shows "\<bar>sin x - (x - x ^ 3 / 6 + x ^ 5 / 120 - x ^ 7 / 5040)\<bar> \<le> \<bar>x\<bar> ^ 8 / 40320"
proof -
  have "(\<Sum>m<8. sin_coeff m * x ^ m) = x - x ^ 3 / 6 + x ^ 5 / 120 - x ^ 7 / 5040"
    by (simp add: eval_nat_numeral sin_coeff_Suc cos_coeff_Suc)
  moreover have "fact 8 = (40320 :: real)"
    by (simp add: fact_numeral)
  then have "inverse (fact 8) * \<bar>x\<bar> ^ 8 = \<bar>x\<bar> ^ 8 / 40320"
    by (simp only: divide_inverse mult.commute)
  ultimately show ?thesis
    using Maclaurin_sin_bound [of x 8] by (simp only:)
qed

lemma sin_low: "sin (7853 / 15000 :: real) < 1 / 2"
proof -
  have "\<bar>sin (7853 / 15000 :: real) - (7853 / 15000 - (7853 / 15000) ^ 3 / 6
          + (7853 / 15000) ^ 5 / 120 - (7853 / 15000) ^ 7 / 5040)\<bar> \<le> \<bar>7853 / 15000\<bar> ^ 8 / 40320"
    by (rule sin_taylor_7)
  moreover have "(7853 / 15000 - (7853 / 15000) ^ 3 / 6
          + (7853 / 15000) ^ 5 / 120 - (7853 / 15000) ^ 7 / 5040) + \<bar>7853 / 15000\<bar> ^ 8 / 40320 < (1 / 2 :: real)"
    by (simp add: power_divide)
  ultimately show ?thesis by linarith
qed


lemma sin_high: "1 / 2 < sin (15713 / 30000 :: real)"
proof -
  have "\<bar>sin (15713 / 30000 :: real) - (15713 / 30000 - (15713 / 30000) ^ 3 / 6
          + (15713 / 30000) ^ 5 / 120 - (15713 / 30000) ^ 7 / 5040)\<bar> \<le> \<bar>15713 / 30000\<bar> ^ 8 / 40320"
    by (rule sin_taylor_7)
  moreover have "(1 / 2 :: real) < (15713 / 30000 - (15713 / 30000) ^ 3 / 6
          + (15713 / 30000) ^ 5 / 120 - (15713 / 30000) ^ 7 / 5040) - \<bar>15713 / 30000\<bar> ^ 8 / 40320"
    by (simp add: power_divide)
  ultimately show ?thesis by linarith
qed

lemma pi_lower: "3.1412 < pi"
proof (rule ccontr)
  assume "\<not> 3.1412 < pi"
  then have le: "pi / 6 \<le> 7853 / 15000" by simp
  have "(7853 / 15000 :: real) \<le> pi / 2"
    using pi_ge_two by simp
  moreover have "- (pi / 2) \<le> pi / 6"
    using pi_ge_zero by linarith
  ultimately have "sin (pi / 6) \<le> sin (7853 / 15000)"
    using le by (intro sin_monotone_2pi_le) simp_all
  then have "1 / 2 \<le> sin (7853 / 15000 :: real)"
    by (simp add: sin_30)
  then show False
    using sin_low by simp
qed

lemma pi_upper: "pi < 3.1426"
proof (rule ccontr)
  assume "\<not> pi < 3.1426"
  then have le: "15713 / 30000 \<le> pi / 6" by simp
  have "pi / 6 \<le> pi / 2"
    using pi_ge_zero by simp
  moreover have "- (pi / 2) \<le> 15713 / 30000"
    using pi_ge_zero by linarith
  ultimately have "sin (15713 / 30000) \<le> sin (pi / 6)"
    using le by (intro sin_monotone_2pi_le) simp_all
  then have "sin (15713 / 30000 :: real) \<le> 1 / 2"
    by (simp add: sin_30)
  then show False
    using sin_high by simp
qed

lemma moon_speed_bounds:
  "\<bar>sqrt (4 * pi\<^sup>2 * (3003 / 10 ^ 9) / (257 / 10 ^ 5)) - 2148 / 10 ^ 4\<bar> < 5 / 10 ^ 5"
proof -
  define q :: real where "q = 4 * pi\<^sup>2 * (3003 / 10 ^ 9) / (257 / 10 ^ 5)"
  have lo: "(3.1412 :: real)\<^sup>2 < pi\<^sup>2"
    using pi_lower by (intro power_strict_mono) simp_all
  have hi: "pi\<^sup>2 < (3.1426 :: real)\<^sup>2"
    using pi_upper by (intro power_strict_mono) simp_all
  have "(21475 / 10 ^ 5 :: real)\<^sup>2 < q"
    using lo by (simp add: q_def power2_eq_square)
  then have a: "21475 / 10 ^ 5 < sqrt q"
    by (rule real_less_rsqrt)
  have "q < (21485 / 10 ^ 5 :: real)\<^sup>2"
    using hi by (simp add: q_def power2_eq_square)
  then have b: "sqrt q < 21485 / 10 ^ 5"
    by (intro real_less_lsqrt) simp_all
  have "\<bar>sqrt q - 2148 / 10 ^ 4\<bar> < 5 / 10 ^ 5"
    using a b unfolding abs_less_iff by simp
  then show ?thesis
    by (simp only: q_def)
qed

subsection \<open>Classification and correction\<close>

lemma fixed_bodies_nth:
  assumes "1 \<le> i" and "i < length bs"
  shows "(hd bs # map (\<lambda>(j, b). g j b) (enumerate 1 (tl bs))) ! i = g i (bs ! i)"
proof -
  obtain k where k: "i = Suc k"
    using assms(1) by (cases i) auto
  have "k < length (tl bs)"
    using assms(2) k by simp
  then show ?thesis
    by (simp add: k nth_enumerate_eq nth_tl)
qed

lemma fixed_bodies_hd:
  assumes "bs \<noteq> []"
  shows "(hd bs # fs) ! 0 = bs ! 0"
  using assms by (simp add: hd_conv_nth)

lemma issues_of_body_subset:
  assumes "1 \<le> i" and "i < length bs"
  shows "set (f i (bs ! i)) \<subseteq> set (concat (map (\<lambda>(j, b). f j b) (enumerate 1 (tl bs))))"
proof -
  obtain k where k: "i = Suc k"
    using assms(1) by (cases i) auto
  have kl: "k < length (tl bs)"
    using assms(2) k by simp
  then have "enumerate 1 (tl bs) ! k = (i, bs ! i)"
    by (simp add: k nth_enumerate_eq nth_tl)
  moreover have "enumerate 1 (tl bs) ! k \<in> set (enumerate 1 (tl bs))"
    using kl by (intro nth_mem) simp
  ultimately have "(i, bs ! i) \<in> set (enumerate 1 (tl bs))"
    by simp
  then show ?thesis
    by force
qed

lemma validate_body_at:
  assumes "sc_bodies s = Some bs" and "2 \<le> length bs" and "1 \<le> i" and "i < length bs"
  shows "\<exists>res iss b' fixed.
           validate_and_fix_scenario s af = Inr res
         \<and> sc_bodies (res_scenario res) = Some fixed
         \<and> length fixed = length bs
         \<and> check_body (dict_get (b_mass (bs ! 0)) 1) af i (bs ! i) = Inr (iss, b')
         \<and> set iss \<subseteq> set (res_issues res)
         \<and> fixed ! i = b'"
proof -
  define M where "M = dict_get (b_mass (bs ! 0)) 1"
  have M: "dict_get (b_mass (hd bs)) 1 = M"
    using assms(2) by (cases bs) (simp_all add: M_def)
  obtain ok st where res: "validate_and_fix_scenario s af =
     Inr \<lparr>res_ok = ok,
          res_issues = concat (map (\<lambda>(j, b). fst (projr (check_body M af j b)))
                                 (enumerate 1 (tl bs))),
          res_scenario = s\<lparr>sc_bodies := Some (hd bs #
             map (\<lambda>(j, b). snd (projr (check_body M af j b))) (enumerate 1 (tl bs)))\<rparr>,
          res_stats = st\<rparr>"
    using validate_unfold [OF assms(1,2), of af] unfolding M by blast
  obtain iss b' where cb: "check_body M af i (bs ! i) = Inr (iss, b')"
    using check_body_total by blast
  have "set (fst (projr (check_body M af i (bs ! i))))
          \<subseteq> set (concat (map (\<lambda>(j, b). fst (projr (check_body M af j b))) (enumerate 1 (tl bs))))"
    by (rule issues_of_body_subset [OF assms(3,4)])
  moreover have "(hd bs # map (\<lambda>(j, b). snd (projr (check_body M af j b))) (enumerate 1 (tl bs))) ! i
      = snd (projr (check_body M af i (bs ! i)))"
    by (rule fixed_bodies_nth [OF assms(3,4)])
  ultimately show ?thesis
    using res cb assms(2) unfolding M_def [symmetric] by simp
qed

lemma velocity_problem_flag_iff:
  assumes "velocity_problem v vc ve = Inr p"
  shows "(p \<noteq> None) =
         (v < 0.3 * vc \<or> v > 1.5 * ve \<or> (\<bar>v - vc\<bar> > 0.5 * vc \<and> (v / vc < 0.7 \<or> v / vc > 1.4)))"
  using assms by (auto simp: velocity_problem_def Let_def mult.commute split: if_splits)

lemma circular_orbit_velocity_formula:
  assumes "0 \<le> M" and "0 < r"
  shows "circular_orbit_velocity M r = sqrt (G_SOLAR * M / r)"
  using assms by (cases "M = 0") (simp_all add: circular_orbit_velocity_def)

lemma escape_velocity_formula:
  assumes "0 \<le> M" and "0 < r"
  shows "escape_velocity M r = sqrt (2 * G_SOLAR * M / r)"
  using assms by (cases "M = 0") (simp_all add: escape_velocity_def)

lemma enumerate_tl_map:
  assumes "bs \<noteq> []"
  shows "map (\<lambda>(j, b). g j b) (enumerate 1 (tl bs)) = map (\<lambda>j. g j (bs ! j)) [1..<length bs]"
proof (rule nth_equalityI)
  show "length (map (\<lambda>(j, b). g j b) (enumerate 1 (tl bs))) = length (map (\<lambda>j. g j (bs ! j)) [1..<length bs])"
    by simp
next
  fix k
  assume "k < length (map (\<lambda>(j, b). g j b) (enumerate 1 (tl bs)))"
  then have k: "k < length bs - 1"
    by simp
  then show "map (\<lambda>(j, b). g j b) (enumerate 1 (tl bs)) ! k = map (\<lambda>j. g j (bs ! j)) [1..<length bs] ! k"
    by (simp add: nth_enumerate_eq nth_tl)
qed

lemma upt_split_at:
  assumes "1 \<le> i" and "i < n"
  shows "[1..<n] = [1..<i] @ i # [Suc i..<n]"
proof -
  have "[1..<i + (n - i)] = [1..<i] @ [i..<i + (n - i)]"
    using assms(1) by (rule upt_add_eq_append)
  then have "[1..<n] = [1..<i] @ [i..<n]"
    using assms(2) by simp
  moreover have "[i..<n] = i # [Suc i..<n]"
    using assms(2) by (rule upt_conv_Cons)
  ultimately show ?thesis
    by simp
qed

lemma validate_issues_at:
  assumes "sc_bodies s = Some bs" and "2 \<le> length bs" and "1 \<le> i" and "i < length bs"
      and "M = dict_get (b_mass (bs ! 0)) 1"
  shows "\<exists>res. validate_and_fix_scenario s af = Inr res
         \<and> res_issues res =
             concat (map (\<lambda>j. fst (projr (check_body M af j (bs ! j)))) [1..<i])
             @ fst (projr (check_body M af i (bs ! i)))
             @ concat (map (\<lambda>j. fst (projr (check_body M af j (bs ! j)))) [Suc i..<length bs])"
proof -
  have ne: "bs \<noteq> []"
    using assms(2) by auto
  have M: "dict_get (b_mass (hd bs)) 1 = M"
    using ne by (simp add: assms(5) hd_conv_nth)
  obtain res where res: "validate_and_fix_scenario s af = Inr res"
      and iss: "res_issues res = concat (map (\<lambda>(j, b). fst (projr (check_body M af j b)))
                                 (enumerate 1 (tl bs)))"
    using validate_unfold [OF assms(1,2), of af] unfolding M by force
  have "res_issues res = concat (map (\<lambda>j. fst (projr (check_body M af j (bs ! j)))) [1..<length bs])"
    unfolding iss enumerate_tl_map [OF ne] ..
  then show ?thesis
    using res unfolding upt_split_at [OF assms(3,4)] by simp
qed

lemma velocity_problem_exact:
  assumes "velocity_problem v vc ve = Inr p"
  shows "p = (if v < 0.3 * vc then Some (TOO_SLOW v vc)
              else if v > 1.5 * ve then Some (TOO_FAST v ve)
              else if \<bar>v - vc\<bar> > 0.5 * vc \<and> (v / vc < 0.7 \<or> v / vc > 1.4)
                   then Some (SUSPICIOUS v vc (v / vc))
              else None)"
  using assms by (auto simp: velocity_problem_def Let_def mult.commute split: if_splits)


text \<open>
  Claim C3.  A body at index \<open>i \<ge> 1\<close> whose distance \<open>r\<close> from the origin exceeds
  \<open>1e-10\<close>, around a primary of mass \<open>M \<ge> 0\<close>, is classified against
  \<open>v_circ = sqrt (G * M / r)\<close> and \<open>v_esc = sqrt (2 * G * M / r)\<close> with \<open>G = 4 * pi^2\<close>:
  it is reported too slow when its speed \<open>v\<close> is below \<open>0.3 * v_circ\<close>; otherwise too
  fast when \<open>v\<close> exceeds \<open>1.5 * v_esc\<close>; otherwise suspicious when \<open>v\<close> differs from
  \<open>v_circ\<close> by more than \<open>0.5 * v_circ\<close> with \<open>v / v_circ\<close> outside \<open>[0.7, 1.4]\<close>;
  otherwise it gets no issue and is returned unchanged.  So it is flagged exactly
  when one of the three conditions holds.  The issues of this body (the warning, and
  the fix notice when \<open>auto_fix\<close> is on) stand in the result's issue list between
  those of the bodies before it and those of the bodies after it, and the body the
  loop produces stands at index \<open>i\<close> of the returned scenario; with \<open>auto_fix\<close> a
  flagged body is returned with the circular velocity.
\<close>

theorem validator_flags_exactly:
  fixes s :: scenario and b :: body
  assumes bodies: "sc_bodies s = Some bs" "2 \<le> length bs" "1 \<le> i" "i < length bs"
      and b: "b = bs ! i"
      and M: "M = dict_get (b_mass (bs ! 0)) 1" "0 \<le> M"
      and name: "name = dict_get (b_name b) (''Body-'' @ str_of_nat i)"
      and pos: "x = dict_get (b_x b) 0" "y = dict_get (b_y b) 0"
      and vel: "vx = dict_get (b_vx b) 0" "vy = dict_get (b_vy b) 0"
      and r: "r = sqrt (x\<^sup>2 + y\<^sup>2)" "1 / 10 ^ 10 < r"
      and v: "v = sqrt (vx\<^sup>2 + vy\<^sup>2)"
      and v_circ: "v_circ = sqrt (4 * pi\<^sup>2 * M / r)"
      and v_esc: "v_esc = sqrt (2 * (4 * pi\<^sup>2) * M / r)"
      and notice: "notice = (if af then [Fixed name v_circ] else [])"
  shows "\<exists>res fixed iss b'.
           validate_and_fix_scenario s af = Inr res
         \<and> sc_bodies (res_scenario res) = Some fixed
         \<and> check_body M af i b = Inr (iss, b')
         \<and> res_issues res =
             concat (map (\<lambda>j. fst (projr (check_body M af j (bs ! j)))) [1..<i])
             @ iss
             @ concat (map (\<lambda>j. fst (projr (check_body M af j (bs ! j)))) [Suc i..<length bs])
         \<and> set iss \<subseteq> set (res_issues res)
         \<and> fixed ! i = b'
         \<and> iss = (if v < 0.3 * v_circ then Warning name (TOO_SLOW v v_circ) # notice
                   else if v > 1.5 * v_esc then Warning name (TOO_FAST v v_esc) # notice
                   else if \<bar>v - v_circ\<bar> > 0.5 * v_circ \<and> (v / v_circ < 0.7 \<or> v / v_circ > 1.4)
                        then Warning name (SUSPICIOUS v v_circ (v / v_circ)) # notice
                   else [])
         \<and> ((\<exists>p. Warning name p \<in> set iss) =
              (v < 0.3 * v_circ \<or> v > 1.5 * v_esc
               \<or> (\<bar>v - v_circ\<bar> > 0.5 * v_circ \<and> (v / v_circ < 0.7 \<or> v / v_circ > 1.4))))
         \<and> (\<not> (\<exists>p. Warning name p \<in> set iss) \<longrightarrow> iss = [] \<and> b' = b)
         \<and> ((\<exists>p. Warning name p \<in> set iss) \<and> af \<longrightarrow>
               b' = b\<lparr>b_vx := Some (v_circ * (- y / r)), b_vy := Some (v_circ * (x / r))\<rparr>)"
proof -
  obtain res iss b' fixed where res: "validate_and_fix_scenario s af = Inr res"
      and fixed: "sc_bodies (res_scenario res) = Some fixed"
      and cb: "check_body M af i b = Inr (iss, b')"
      and sub: "set iss \<subseteq> set (res_issues res)"
      and nth: "fixed ! i = b'"
    using validate_body_at [OF bodies, of af] unfolding M(1) [symmetric] b [symmetric] by blast
  have place: "res_issues res =
             concat (map (\<lambda>j. fst (projr (check_body M af j (bs ! j)))) [1..<i])
             @ iss
             @ concat (map (\<lambda>j. fst (projr (check_body M af j (bs ! j)))) [Suc i..<length bs])"
    using validate_issues_at [OF bodies M(1), of af] res cb unfolding b by auto
  have "(0::real) < 1 / 10 ^ 10" by simp
  with r(2) have r_pos: "0 < r" by linarith
  have far: "\<not> r < 1 / 10 ^ 10"
    using r(2) by simp
  have vc: "circular_orbit_velocity M r = v_circ"
    unfolding v_circ using circular_orbit_velocity_formula [OF M(2) r_pos]
    by (simp add: G_SOLAR_def)
  have ve: "escape_velocity M r = v_esc"
    unfolding v_esc using escape_velocity_formula [OF M(2) r_pos]
    by (simp add: G_SOLAR_def)
  have "0 \<le> v"
    by (simp add: v)
  then obtain p where p: "velocity_problem v v_circ v_esc = Inr p"
    using velocity_problem_total [of v M r] unfolding vc ve by blast
  note unf = check_body_unfold [OF pos vel r(1) v name, of M af, unfolded vc ve]
  have kind: "p = (if v < 0.3 * v_circ then Some (TOO_SLOW v v_circ)
              else if v > 1.5 * v_esc then Some (TOO_FAST v v_esc)
              else if \<bar>v - v_circ\<bar> > 0.5 * v_circ \<and> (v / v_circ < 0.7 \<or> v / v_circ > 1.4)
                   then Some (SUSPICIOUS v v_circ (v / v_circ))
              else None)"
    using p by (rule velocity_problem_exact)
  have flag: "(p \<noteq> None) =
         (v < 0.3 * v_circ \<or> v > 1.5 * v_esc
           \<or> (\<bar>v - v_circ\<bar> > 0.5 * v_circ \<and> (v / v_circ < 0.7 \<or> v / v_circ > 1.4)))"
    using p by (rule velocity_problem_flag_iff)
  have out: "iss = (case p of None \<Rightarrow> [] | Some q \<Rightarrow> Warning name q # notice)"
      "b' = (case p of None \<Rightarrow> b
             | Some q \<Rightarrow> if af then b\<lparr>b_vx := Some (v_circ * (- y / r)),
                                      b_vy := Some (v_circ * (x / r))\<rparr> else b)"
    using cb far p unfolding unf notice by (cases p; cases af; simp add: mult.commute)+
  have exact: "iss = (if v < 0.3 * v_circ then Warning name (TOO_SLOW v v_circ) # notice
                   else if v > 1.5 * v_esc then Warning name (TOO_FAST v v_esc) # notice
                   else if \<bar>v - v_circ\<bar> > 0.5 * v_circ \<and> (v / v_circ < 0.7 \<or> v / v_circ > 1.4)
                        then Warning name (SUSPICIOUS v v_circ (v / v_circ)) # notice
                   else [])"
    unfolding out(1) by (subst kind) simp
  have warned: "(\<exists>q. Warning name q \<in> set iss) = (p \<noteq> None)"
    unfolding out(1) notice by (cases p) auto
  have same: "\<not> (\<exists>q. Warning name q \<in> set iss) \<longrightarrow> iss = [] \<and> b' = b"
    unfolding warned using out by (cases p) simp_all
  have corrected: "(\<exists>q. Warning name q \<in> set iss) \<and> af \<longrightarrow>
               b' = b\<lparr>b_vx := Some (v_circ * (- y / r)), b_vy := Some (v_circ * (x / r))\<rparr>"
    unfolding warned using out(2) by (cases p) simp_all
  show ?thesis
    using res fixed cb place sub nth exact warned flag same corrected
    by (intro exI [of _ res] exI [of _ fixed] exI [of _ iss] exI [of _ b']) simp
qed

lemma validate_shape:
  assumes "sc_bodies s = Some bs" and "2 \<le> length bs"
  shows "\<exists>res fixed. validate_and_fix_scenario s af = Inr res
           \<and> res_scenario res = s\<lparr>sc_bodies := Some fixed\<rparr>
           \<and> length fixed = length bs \<and> fixed ! 0 = bs ! 0"
proof -
  have ne: "bs \<noteq> []" using assms(2) by auto
  define fixed where "fixed = hd bs #
     map (\<lambda>(j, b). snd (projr (check_body (dict_get (b_mass (hd bs)) 1) af j b))) (enumerate 1 (tl bs))"
  obtain res where "validate_and_fix_scenario s af = Inr res"
      and "res_scenario res = s\<lparr>sc_bodies := Some fixed\<rparr>"
    using validate_unfold [OF assms, of af] unfolding fixed_def by force
  moreover have "length fixed = length bs"
    using ne by (simp add: fixed_def)
  moreover have "fixed ! 0 = bs ! 0"
    using ne by (simp add: fixed_def hd_conv_nth)
  ultimately show ?thesis
    by blast
qed

lemma check_body_frame:
  assumes "check_body M af i b = Inr (iss, b')"
  shows "b' = b\<lparr>b_vx := b_vx b', b_vy := b_vy b'\<rparr>
       \<and> (b' = b \<or> (af \<and> (\<exists>p. Warning (dict_get (b_name b) (''Body-'' @ str_of_nat i)) p \<in> set iss)))"
proof -
  note unf = check_body_unfold [OF refl refl refl refl refl refl refl, of M af i b]
  show ?thesis
    using assms unfolding unf
    by (auto split: if_splits sum.splits option.splits)
qed

lemma moon_radius: "sqrt ((257 / 10 ^ 5)\<^sup>2 + 0\<^sup>2) = (257 / 10 ^ 5 :: real)"
  by simp

lemma moon_speed: "sqrt (0\<^sup>2 + (6396 / 10 ^ 3)\<^sup>2) = (6396 / 10 ^ 3 :: real)"
  by simp

lemma moon_circular:
  "circular_orbit_velocity (3003 / 10 ^ 9) (257 / 10 ^ 5)
     = sqrt (4 * pi\<^sup>2 * (3003 / 10 ^ 9) / (257 / 10 ^ 5))"
  by (simp add: circular_orbit_velocity_def G_SOLAR_def)

lemma moon_escape:
  "escape_velocity (3003 / 10 ^ 9) (257 / 10 ^ 5)
     = sqrt (2 * (4 * pi\<^sup>2) * (3003 / 10 ^ 9) / (257 / 10 ^ 5))"
  by (simp add: escape_velocity_def G_SOLAR_def)

lemma moon_escape_bounds:
  "\<bar>sqrt (2 * (4 * pi\<^sup>2) * (3003 / 10 ^ 9) / (257 / 10 ^ 5)) - 304 / 10 ^ 3\<bar> < 5 / 10 ^ 4"
proof -
  define q :: real where "q = 2 * (4 * pi\<^sup>2) * (3003 / 10 ^ 9) / (257 / 10 ^ 5)"
  have lo: "(3.1412 :: real)\<^sup>2 < pi\<^sup>2"
    using pi_lower by (intro power_strict_mono) simp_all
  have hi: "pi\<^sup>2 < (3.1426 :: real)\<^sup>2"
    using pi_upper by (intro power_strict_mono) simp_all
  have "(3035 / 10 ^ 4 :: real)\<^sup>2 < q"
    using lo by (simp add: q_def power2_eq_square)
  then have a: "3035 / 10 ^ 4 < sqrt q"
    by (rule real_less_rsqrt)
  have "q < (3045 / 10 ^ 4 :: real)\<^sup>2"
    using hi by (simp add: q_def power2_eq_square)
  then have b: "sqrt q < 3045 / 10 ^ 4"
    by (intro real_less_lsqrt) simp_all
  have "\<bar>sqrt q - 304 / 10 ^ 3\<bar> < 5 / 10 ^ 4"
    using a b unfolding abs_less_iff by simp
  then show ?thesis
    by (simp only: q_def)
qed

lemma moon_velocity_problem:
  "velocity_problem (6396 / 10 ^ 3) (circular_orbit_velocity (3003 / 10 ^ 9) (257 / 10 ^ 5))
       (escape_velocity (3003 / 10 ^ 9) (257 / 10 ^ 5))
   = Inr (Some (TOO_FAST (6396 / 10 ^ 3) (escape_velocity (3003 / 10 ^ 9) (257 / 10 ^ 5))))"
proof -
  define c where "c = circular_orbit_velocity (3003 / 10 ^ 9) (257 / 10 ^ 5)"
  define e where "e = escape_velocity (3003 / 10 ^ 9) (257 / 10 ^ 5)"
  have "\<bar>c - 2148 / 10 ^ 4\<bar> < 5 / 10 ^ 5"
    unfolding c_def moon_circular by (rule moon_speed_bounds)
  then have c: "c < 1"
    unfolding abs_less_iff by simp
  have "\<bar>e - 304 / 10 ^ 3\<bar> < 5 / 10 ^ 4"
    unfolding e_def moon_escape by (rule moon_escape_bounds)
  then have e: "e < 1"
    unfolding abs_less_iff by simp
  have "\<not> (6396 / 10 ^ 3 < c * 0.3)" "6396 / 10 ^ 3 > e * 1.5"
    using c e by simp_all
  then show ?thesis
    unfolding c_def [symmetric] e_def [symmetric] velocity_problem_def by simp
qed

lemma moon_check_body:
  "check_body (3003 / 10 ^ 9) True 1 moon_body =
     Inr ([Warning ''Moon'' (TOO_FAST (6396 / 10 ^ 3) (escape_velocity (3003 / 10 ^ 9) (257 / 10 ^ 5))),
           Fixed ''Moon'' (circular_orbit_velocity (3003 / 10 ^ 9) (257 / 10 ^ 5))],
          moon_body\<lparr>b_vx := Some 0,
                     b_vy := Some (circular_orbit_velocity (3003 / 10 ^ 9) (257 / 10 ^ 5))\<rparr>)"
proof -
  have x: "(257 / 10 ^ 5 :: real) = dict_get (b_x moon_body) 0"
   and y: "(0 :: real) = dict_get (b_y moon_body) 0"
   and vx: "(0 :: real) = dict_get (b_vx moon_body) 0"
   and vy: "(6396 / 10 ^ 3 :: real) = dict_get (b_vy moon_body) 0"
   and name: "''Moon'' = dict_get (b_name moon_body) (''Body-'' @ str_of_nat 1)"
    by (simp_all add: moon_body_def)
  note unf = check_body_unfold [OF x y vx vy moon_radius [symmetric] moon_speed [symmetric] name,
      of "3003 / 10 ^ 9" True]
  have far: "\<not> (257 / 10 ^ 5 :: real) < 1 / 10 ^ 10"
    by simp
  show ?thesis
    unfolding unf moon_velocity_problem using far by simp
qed

lemma moon_validation_exact:
  "\<exists>res esc vy.
       validate_and_fix_scenario moon_falling True = Inr res
     \<and> res_issues res = [Warning ''Moon'' (TOO_FAST 6.396 esc), Fixed ''Moon'' vy]
     \<and> sc_bodies (res_scenario res) = Some [earth_body, moon_body\<lparr>b_vx := Some 0, b_vy := Some vy\<rparr>]
     \<and> vy = sqrt (4 * pi\<^sup>2 * (3.003 / 10 ^ 6) / 0.00257)
     \<and> esc = sqrt (2 * (4 * pi\<^sup>2) * (3.003 / 10 ^ 6) / 0.00257)
     \<and> \<bar>vy - 0.2148\<bar> < 0.00005
     \<and> \<bar>esc - 0.304\<bar> < 0.0005"
proof -
  define vy where "vy = circular_orbit_velocity (3003 / 10 ^ 9) (257 / 10 ^ 5)"
  define esc where "esc = escape_velocity (3003 / 10 ^ 9) (257 / 10 ^ 5)"
  have M: "dict_get (b_mass earth_body) 1 = 3003 / 10 ^ 9"
    by (simp add: earth_body_def)
  have vy_eq: "vy = sqrt (4 * pi\<^sup>2 * (3.003 / 10 ^ 6) / 0.00257)"
    unfolding vy_def moon_circular by simp
  have esc_eq: "esc = sqrt (2 * (4 * pi\<^sup>2) * (3.003 / 10 ^ 6) / 0.00257)"
    unfolding esc_def moon_escape by simp
  have vy: "\<bar>vy - 0.2148\<bar> < 0.00005"
    using moon_speed_bounds unfolding vy_def moon_circular by simp
  have esc: "\<bar>esc - 0.304\<bar> < 0.0005"
    using moon_escape_bounds unfolding esc_def moon_escape by simp
  have cb: "check_body (dict_get (b_mass earth_body) 1) True (Suc 0) moon_body =
     Inr ([Warning ''Moon'' (TOO_FAST (6396 / 10 ^ 3) esc), Fixed ''Moon'' vy],
          moon_body\<lparr>b_vx := Some 0, b_vy := Some vy\<rparr>)"
    using moon_check_body unfolding M vy_def esc_def by simp
  define res0 where "res0 =
     \<lparr>res_ok = False,
      res_issues = [Warning ''Moon'' (TOO_FAST 6.396 esc), Fixed ''Moon'' vy],
      res_scenario = moon_falling\<lparr>sc_bodies := Some [earth_body,
          moon_body\<lparr>b_vx := Some 0, b_vy := Some vy\<rparr>]\<rparr>,
      res_stats = Some \<lparr>total_bodies = 2, issues_found = 1, issues_fixed = 1\<rparr>\<rparr>"
  have run: "validate_and_fix_scenario moon_falling True = Inr res0"
    by (simp add: res0_def validate_and_fix_scenario_def moon_falling_def cb Let_def
                  sublist_Cons_right)
  have iss: "res_issues res0 = [Warning ''Moon'' (TOO_FAST 6.396 esc), Fixed ''Moon'' vy]"
    by (simp add: res0_def)
  have bod: "sc_bodies (res_scenario res0)
               = Some [earth_body, moon_body\<lparr>b_vx := Some 0, b_vy := Some vy\<rparr>]"
    by (simp add: res0_def)
  show ?thesis
    using run iss bod vy esc vy_eq esc_eq by blast
qed


text \<open>The theorem at the Moon of \<open>moon_falling\<close> without \<open>auto_fix\<close>: the one issue of the
  result is the too-fast warning against the escape velocity.\<close>

theorem validator_flags_exactly_witness:
  "\<exists>res. validate_and_fix_scenario moon_falling False = Inr res
       \<and> res_issues res =
           [Warning ''Moon'' (TOO_FAST (6396 / 10 ^ 3)
              (sqrt (2 * (4 * pi\<^sup>2) * (3003 / 10 ^ 9) / (257 / 10 ^ 5))))]"
proof -
  define M :: real where "M = 3003 / 10 ^ 9"
  define r :: real where "r = 257 / 10 ^ 5"
  define c where "c = sqrt (4 * pi\<^sup>2 * M / r)"
  define e where "e = sqrt (2 * (4 * pi\<^sup>2) * M / r)"
  have bodies: "sc_bodies moon_falling = Some [earth_body, moon_body]"
      "2 \<le> length [earth_body, moon_body]" "1 \<le> (1::nat)" "1 < length [earth_body, moon_body]"
    by (simp_all add: moon_falling_def)
  have b: "moon_body = [earth_body, moon_body] ! 1"
    by simp
  have M: "M = dict_get (b_mass ([earth_body, moon_body] ! 0)) 1" "0 \<le> M"
    by (simp_all add: earth_body_def M_def)
  have name: "''Moon'' = dict_get (b_name moon_body) (''Body-'' @ str_of_nat 1)"
    by (simp add: moon_body_def)
  have pos: "r = dict_get (b_x moon_body) 0" "(0 :: real) = dict_get (b_y moon_body) 0"
    by (simp_all add: moon_body_def r_def)
  have vel: "(0 :: real) = dict_get (b_vx moon_body) 0" "(6396 / 10 ^ 3 :: real) = dict_get (b_vy moon_body) 0"
    by (simp_all add: moon_body_def)
  have rr: "r = sqrt (r\<^sup>2 + 0\<^sup>2)" "1 / 10 ^ 10 < r"
    by (simp_all add: r_def)
  have v: "(6396 / 10 ^ 3 :: real) = sqrt (0\<^sup>2 + (6396 / 10 ^ 3)\<^sup>2)"
    by simp
  have notice: "[] = (if False then [Fixed ''Moon'' c] else [])"
    by simp
  have "\<bar>c - 2148 / 10 ^ 4\<bar> < 5 / 10 ^ 5"
    unfolding c_def M_def r_def by (rule moon_speed_bounds)
  then have "c < 1"
    unfolding abs_less_iff by simp
  then have slow: "\<not> 6396 / 10 ^ 3 < 0.3 * c"
    by simp
  have "\<bar>e - 304 / 10 ^ 3\<bar> < 5 / 10 ^ 4"
    unfolding e_def M_def r_def by (rule moon_escape_bounds)
  then have "e < 1"
    unfolding abs_less_iff by simp
  then have fast: "6396 / 10 ^ 3 > 1.5 * e"
    by simp
  obtain res iss where
      res: "validate_and_fix_scenario moon_falling False = Inr res"
      and place: "res_issues res =
             concat (map (\<lambda>j. fst (projr (check_body M False j ([earth_body, moon_body] ! j)))) [1..<1])
             @ iss
             @ concat (map (\<lambda>j. fst (projr (check_body M False j ([earth_body, moon_body] ! j))))
                 [Suc 1..<length [earth_body, moon_body]])"
      and iss: "iss = (if 6396 / 10 ^ 3 < 0.3 * c then Warning ''Moon'' (TOO_SLOW (6396 / 10 ^ 3) c) # []
                   else if 6396 / 10 ^ 3 > 1.5 * e then Warning ''Moon'' (TOO_FAST (6396 / 10 ^ 3) e) # []
                   else if \<bar>6396 / 10 ^ 3 - c\<bar> > 0.5 * c \<and> (6396 / 10 ^ 3 / c < 0.7 \<or> 6396 / 10 ^ 3 / c > 1.4)
                        then Warning ''Moon'' (SUSPICIOUS (6396 / 10 ^ 3) c (6396 / 10 ^ 3 / c)) # []
                   else [])"
    using validator_flags_exactly [OF bodies b M name pos vel rr v c_def e_def notice]
    by blast
  have "iss = [Warning ''Moon'' (TOO_FAST (6396 / 10 ^ 3) e)]"
    unfolding iss using slow fast by (simp only: if_False if_True)
  then have "res_issues res = [Warning ''Moon'' (TOO_FAST (6396 / 10 ^ 3) e)]"
    unfolding place by simp
  then show ?thesis
    using res unfolding e_def M_def r_def by blast
qed


text \<open>
  Claim C4.  A flagged body at \<open>(x, y)\<close>, \<open>r = sqrt (x^2 + y^2)\<close>, around a primary of
  mass \<open>M \<ge> 0\<close> is returned with the velocity \<open>v_circ * (-y / r, x / r)\<close>, where
  \<open>v_circ = sqrt (4 * pi^2 * M / r)\<close>, and with a fix notice; a body with \<open>r < 1e-10\<close> is
  returned untouched with no issue.  In the example scenario (a body at
  \<open>x = 0.00257\<close>, \<open>y = 0\<close> with \<open>vy = 6.396\<close> around a primary of mass \<open>3.003e-6\<close>) the
  body is reported too fast against the escape velocity
  \<open>sqrt (2 * 4 * pi^2 * M / r)\<close>, which is within \<open>0.0005\<close> of \<open>0.304\<close>, and is returned
  with \<open>vx = 0\<close> and \<open>vy = sqrt (4 * pi^2 * M / r)\<close>, which is within \<open>0.00005\<close> of
  \<open>0.2148\<close>.
\<close>

theorem validator_correction:
  fixes s :: scenario and b :: body
  assumes bodies: "sc_bodies s = Some bs" "2 \<le> length bs" "1 \<le> i" "i < length bs"
      and b: "b = bs ! i"
      and M: "M = dict_get (b_mass (bs ! 0)) 1" "0 \<le> M"
      and name: "name = dict_get (b_name b) (''Body-'' @ str_of_nat i)"
      and pos: "x = dict_get (b_x b) 0" "y = dict_get (b_y b) 0"
      and r: "r = sqrt (x\<^sup>2 + y\<^sup>2)"
      and v_circ: "v_circ = sqrt (4 * pi\<^sup>2 * M / r)"
  shows "(\<exists>res fixed iss b'.
             validate_and_fix_scenario s True = Inr res
           \<and> sc_bodies (res_scenario res) = Some fixed
           \<and> check_body M True i b = Inr (iss, b')
           \<and> set iss \<subseteq> set (res_issues res)
           \<and> fixed ! i = b'
           \<and> ((\<exists>p. Warning name p \<in> set iss) \<longrightarrow>
                 b' = b\<lparr>b_vx := Some (v_circ * (- y / r)), b_vy := Some (v_circ * (x / r))\<rparr>
                 \<and> Fixed name v_circ \<in> set iss)
           \<and> (r < 1 / 10 ^ 10 \<longrightarrow> iss = [] \<and> b' = b))
       \<and> (\<exists>res esc vy.
             validate_and_fix_scenario moon_falling True = Inr res
           \<and> res_issues res = [Warning ''Moon'' (TOO_FAST 6.396 esc), Fixed ''Moon'' vy]
           \<and> sc_bodies (res_scenario res)
                = Some [earth_body, moon_body\<lparr>b_vx := Some 0, b_vy := Some vy\<rparr>]
           \<and> vy = sqrt (4 * pi\<^sup>2 * (3.003 / 10 ^ 6) / 0.00257)
           \<and> esc = sqrt (2 * (4 * pi\<^sup>2) * (3.003 / 10 ^ 6) / 0.00257)
           \<and> \<bar>vy - 0.2148\<bar> < 0.00005
           \<and> \<bar>esc - 0.304\<bar> < 0.0005)"
proof -
  obtain res iss b' fixed where res: "validate_and_fix_scenario s True = Inr res"
      and fixed: "sc_bodies (res_scenario res) = Some fixed"
      and cb: "check_body M True i b = Inr (iss, b')"
      and sub: "set iss \<subseteq> set (res_issues res)"
      and nth: "fixed ! i = b'"
    using validate_body_at [OF bodies, of True] unfolding M(1) [symmetric] b [symmetric] by blast
  note unf = check_body_unfold [OF pos refl refl r refl name, of M True]
  have near: "r < 1 / 10 ^ 10 \<longrightarrow> iss = [] \<and> b' = b"
    using cb unfolding unf by auto
  have corr: "(\<exists>p. Warning name p \<in> set iss) \<longrightarrow>
                 b' = b\<lparr>b_vx := Some (v_circ * (- y / r)), b_vy := Some (v_circ * (x / r))\<rparr>
                 \<and> Fixed name v_circ \<in> set iss"
  proof (cases "r < 1 / 10 ^ 10")
    case True
    then show ?thesis
      using near by simp
  next
    case False
    have "(0::real) < 1 / 10 ^ 10" by simp
    with False have r_pos: "0 < r" by linarith
    have vc: "circular_orbit_velocity M r = v_circ"
      unfolding v_circ using circular_orbit_velocity_formula [OF M(2) r_pos]
      by (simp add: G_SOLAR_def)
    show ?thesis
      using cb False unfolding unf vc
      by (auto split: if_splits sum.splits option.splits simp: mult.commute)
  qed
  have moon: "\<exists>res esc vy.
             validate_and_fix_scenario moon_falling True = Inr res
           \<and> res_issues res = [Warning ''Moon'' (TOO_FAST 6.396 esc), Fixed ''Moon'' vy]
           \<and> sc_bodies (res_scenario res)
                = Some [earth_body, moon_body\<lparr>b_vx := Some 0, b_vy := Some vy\<rparr>]
           \<and> vy = sqrt (4 * pi\<^sup>2 * (3.003 / 10 ^ 6) / 0.00257)
           \<and> esc = sqrt (2 * (4 * pi\<^sup>2) * (3.003 / 10 ^ 6) / 0.00257)
           \<and> \<bar>vy - 0.2148\<bar> < 0.00005
           \<and> \<bar>esc - 0.304\<bar> < 0.0005"
    by (rule moon_validation_exact)
  show ?thesis
    using res fixed cb sub nth corr near moon by blast
qed



text \<open>The general part of the theorem at the Moon of \<open>moon_falling\<close>.\<close>

theorem validator_correction_witness:
  "\<exists>res fixed. validate_and_fix_scenario moon_falling True = Inr res
       \<and> sc_bodies (res_scenario res) = Some fixed
       \<and> fixed ! 1 = moon_body
            \<lparr>b_vx := Some (sqrt (4 * pi\<^sup>2 * (3003 / 10 ^ 9) / (257 / 10 ^ 5))
                            * (- 0 / (257 / 10 ^ 5))),
             b_vy := Some (sqrt (4 * pi\<^sup>2 * (3003 / 10 ^ 9) / (257 / 10 ^ 5))
                            * ((257 / 10 ^ 5) / (257 / 10 ^ 5)))\<rparr>"
proof -
  define M :: real where "M = 3003 / 10 ^ 9"
  define r :: real where "r = 257 / 10 ^ 5"
  have bodies: "sc_bodies moon_falling = Some [earth_body, moon_body]"
      "2 \<le> length [earth_body, moon_body]" "1 \<le> (1::nat)" "1 < length [earth_body, moon_body]"
    by (simp_all add: moon_falling_def)
  have b: "moon_body = [earth_body, moon_body] ! 1"
    by simp
  have M: "M = dict_get (b_mass ([earth_body, moon_body] ! 0)) 1" "0 \<le> M"
    by (simp_all add: earth_body_def M_def)
  have name: "''Moon'' = dict_get (b_name moon_body) (''Body-'' @ str_of_nat 1)"
    by (simp add: moon_body_def)
  have pos: "r = dict_get (b_x moon_body) 0" "(0 :: real) = dict_get (b_y moon_body) 0"
    by (simp_all add: moon_body_def r_def)
  have rr: "r = sqrt (r\<^sup>2 + 0\<^sup>2)"
    by (simp add: r_def)
  obtain res fixed iss b' where res: "validate_and_fix_scenario moon_falling True = Inr res"
      "sc_bodies (res_scenario res) = Some fixed"
      and cb: "check_body M True 1 moon_body = Inr (iss, b')"
      and nth: "fixed ! 1 = b'"
      and corr: "(\<exists>p. Warning ''Moon'' p \<in> set iss) \<longrightarrow>
                 b' = moon_body\<lparr>b_vx := Some (sqrt (4 * pi\<^sup>2 * M / r) * (- 0 / r)),
                                 b_vy := Some (sqrt (4 * pi\<^sup>2 * M / r) * (r / r))\<rparr>
                 \<and> Fixed ''Moon'' (sqrt (4 * pi\<^sup>2 * M / r)) \<in> set iss"
    using validator_correction [OF bodies b M name pos rr refl] by blast
  have "\<exists>p. Warning ''Moon'' p \<in> set iss"
    using cb moon_check_body unfolding M_def by auto
  then show ?thesis
    using res nth corr unfolding M_def r_def by blast
qed

text \<open>
  Claim C10.  The returned scenario differs from the input at most in the \<open>vx\<close> and \<open>vy\<close>
  fields of bodies that were flagged: the other scenario fields, the length and order
  of the body list, the body at index 0 and every other field of every body are those
  of the input.  A body was changed only at an index \<open>i \<ge> 1\<close>, with \<open>auto_fix\<close> on and a
  warning for it among the issues.  A scenario with fewer than two bodies is returned
  as it is, with \<open>ok\<close> true and no issue.
\<close>

theorem validator_changes_only_flagged_velocities:
  assumes bs: "bs = dict_get (sc_bodies s) []"
  shows "\<exists>res fixed.
           validate_and_fix_scenario s af = Inr res
         \<and> fixed = dict_get (sc_bodies (res_scenario res)) []
         \<and> res_scenario res = s\<lparr>sc_bodies := sc_bodies (res_scenario res)\<rparr>
         \<and> length fixed = length bs
         \<and> (\<forall>i<length bs.
               fixed ! i = (bs ! i)\<lparr>b_vx := b_vx (fixed ! i), b_vy := b_vy (fixed ! i)\<rparr>
             \<and> (fixed ! i \<noteq> bs ! i \<longrightarrow>
                  1 \<le> i \<and> af
                \<and> (\<exists>p. Warning (dict_get (b_name (bs ! i)) (''Body-'' @ str_of_nat i)) p
                          \<in> set (res_issues res))))
         \<and> (bs \<noteq> [] \<longrightarrow> fixed ! 0 = bs ! 0)
         \<and> (length bs < 2 \<longrightarrow>
               res = \<lparr>res_ok = True, res_issues = [], res_scenario = s, res_stats = None\<rparr>)"
proof (cases "length bs < 2")
  case True
  then show ?thesis
    using validate_few_bodies [of s af] bs by simp
next
  case False
  then have some: "sc_bodies s = Some bs" and len: "2 \<le> length bs"
    using bs by (cases "sc_bodies s"; simp)+
  obtain res fixed where res: "validate_and_fix_scenario s af = Inr res"
      and sc: "res_scenario res = s\<lparr>sc_bodies := Some fixed\<rparr>"
      and lf: "length fixed = length bs" and f0: "fixed ! 0 = bs ! 0"
    using validate_shape [OF some len, of af] by blast
  have each: "fixed ! i = (bs ! i)\<lparr>b_vx := b_vx (fixed ! i), b_vy := b_vy (fixed ! i)\<rparr>
             \<and> (fixed ! i \<noteq> bs ! i \<longrightarrow>
                  1 \<le> i \<and> af
                \<and> (\<exists>p. Warning (dict_get (b_name (bs ! i)) (''Body-'' @ str_of_nat i)) p
                          \<in> set (res_issues res)))" if i: "i < length bs" for i
  proof (cases "i = 0")
    case True
    then show ?thesis
      using f0 by simp
  next
    case False
    then have "1 \<le> i" by simp
    then obtain iss b' where
        cb: "check_body (dict_get (b_mass (bs ! 0)) 1) af i (bs ! i) = Inr (iss, b')"
        and sub: "set iss \<subseteq> set (res_issues res)" and nth: "fixed ! i = b'"
      using validate_body_at [OF some len _ i, of af] res sc by auto
    show ?thesis
      using check_body_frame [OF cb] sub \<open>1 \<le> i\<close> unfolding nth by blast
  qed
  show ?thesis
    using res sc lf f0 each False by (intro exI [of _ res] exI [of _ fixed]) simp
qed

text \<open>The theorem at \<open>moon_falling\<close>.\<close>

theorem validator_changes_only_flagged_velocities_witness:
  "\<exists>res fixed. validate_and_fix_scenario moon_falling True = Inr res
       \<and> sc_bodies (res_scenario res) = Some fixed
       \<and> sc_name (res_scenario res) = Some ''Earth-Moon (BROKEN)''
       \<and> length fixed = 2
       \<and> fixed ! 0 = earth_body
       \<and> fixed ! 1 = moon_body\<lparr>b_vx := b_vx (fixed ! 1), b_vy := b_vy (fixed ! 1)\<rparr>"
proof -
  have bs: "[earth_body, moon_body] = dict_get (sc_bodies moon_falling) []"
    by (simp add: moon_falling_def)
  obtain res fixed where res: "validate_and_fix_scenario moon_falling True = Inr res"
      and fixed: "fixed = dict_get (sc_bodies (res_scenario res)) []"
      and sc: "res_scenario res = moon_falling\<lparr>sc_bodies := sc_bodies (res_scenario res)\<rparr>"
      and len: "length fixed = length [earth_body, moon_body]"
      and each: "\<forall>i<length [earth_body, moon_body].
               fixed ! i = ([earth_body, moon_body] ! i)\<lparr>b_vx := b_vx (fixed ! i), b_vy := b_vy (fixed ! i)\<rparr>
             \<and> (fixed ! i \<noteq> [earth_body, moon_body] ! i \<longrightarrow>
                  1 \<le> i \<and> True
                \<and> (\<exists>p. Warning (dict_get (b_name ([earth_body, moon_body] ! i)) (''Body-'' @ str_of_nat i)) p
                          \<in> set (res_issues res)))"
      and f0: "[earth_body, moon_body] \<noteq> [] \<longrightarrow> fixed ! 0 = [earth_body, moon_body] ! 0"
    using validator_changes_only_flagged_velocities [OF bs, of True] by blast
  have "fixed ! 1 = moon_body\<lparr>b_vx := b_vx (fixed ! 1), b_vy := b_vy (fixed ! 1)\<rparr>"
    using each by auto
  moreover have "sc_bodies (res_scenario res) = Some fixed"
    using fixed len by (cases "sc_bodies (res_scenario res)") simp_all
  moreover have "sc_name (res_scenario res) = Some ''Earth-Moon (BROKEN)''"
    by (subst sc) (simp add: moon_falling_def)
  ultimately show ?thesis
    using res len f0 by simp
qed

text \<open>
  Claim C9.  Whether or not a second body's mass exceeds 30 percent of the largest
  mass, \<open>smart_validate_scenario\<close> returns exactly what \<open>validate_and_fix_scenario\<close> with
  \<open>auto_fix = True\<close> returns (the branches differ only in the printed line).
\<close>

theorem smart_validate_same_result:
  "snd (smart_validate_scenario s verbose) = validate_and_fix_scenario s True"
proof (cases "length (dict_get (sc_bodies s) []) < 2")
  case True
  then show ?thesis
    by (simp add: smart_validate_scenario_def validate_few_bodies)
next
  case False
  then show ?thesis
    by (simp add: smart_validate_scenario_def Let_def)
qed

text \<open>On the binary star scenario the multi-star branch runs, and the result is the
  same.\<close>

theorem smart_validate_same_result_witness:
  "smart_validate_scenario binary_stars True =
     ([''  Detected multi-star system - using relaxed validation''],
      validate_and_fix_scenario binary_stars True)"
proof -
  have "fst (smart_validate_scenario binary_stars True) =
          [''  Detected multi-star system - using relaxed validation'']"
    by (simp add: smart_validate_scenario_def binary_stars_def Let_def enumerate_eq_zip)
  then show ?thesis
    using smart_validate_same_result [of binary_stars True]
    by (simp add: prod_eq_iff)
qed

section \<open>Properties of the simulation session\<close>

text \<open>
  Claim C7.  On a session with no simulation loaded, \<open>step\<close> raises the
  "No simulation loaded" \<open>RuntimeError\<close> (and leaves the store as it is), while
  \<open>get_frame\<close> returns the empty frame: \<open>t = 0\<close>, \<open>N = 0\<close>, no bodies,
  \<open>energy_drift = 0\<close>.
\<close>

theorem unloaded_session:
  assumes "eng_sim self = None"
  shows "step integ energy h self n_frames =
           (h, Inl (RuntimeError
              ''No simulation loaded. Call load_scenario() or load_from_horizons() first.''))
       \<and> get_frame energy h self = \<lparr>f_t = 0, f_N = 0, f_bodies = [], f_energy_drift = 0\<rparr>"
  using assms by (simp add: step_def get_frame_def)

text \<open>The theorem at a freshly constructed engine.\<close>

theorem unloaded_session_witness:
  "step drift_integrator (\<lambda>s. 0) [] init_engine 1 =
           ([], Inl (RuntimeError
              ''No simulation loaded. Call load_scenario() or load_from_horizons() first.''))
       \<and> get_frame (\<lambda>s. 0) [] init_engine = \<lparr>f_t = 0, f_N = 0, f_bodies = [], f_energy_drift = 0\<rparr>"
proof -
  have "eng_sim init_engine = None"
    by (simp add: init_engine_def)
  then show ?thesis
    by (rule unloaded_session)
qed

text \<open>
  Claim C8.  On a loaded session with at least two particles, \<open>get_orbital_elements\<close>
  returns one entry for every particle but particle 0, in order, computed relative to
  particle 0.  The entry of a body whose orbit computation raises is the error entry
  with the body's name and the exception's text; the entry of every other body holds
  its rounded elements, whatever happens for the other bodies.  The method has no
  error result of its own: it never raises.
\<close>

theorem orbital_elements_per_body:
  assumes sim: "eng_sim self = Some a"
      and ps: "ps = sim_particles (h ! a)"
      and N: "2 \<le> length ps"
  shows "length (get_orbital_elements orbit_of h self) = length ps - 1
       \<and> (\<forall>i. 1 \<le> i \<and> i < length ps \<longrightarrow>
             get_orbital_elements orbit_of h self ! (i - 1) =
               (case orbit_of (ps ! i) (ps ! 0) of
                  Inl msg \<Rightarrow>
                    ElementError (if i < length (eng_body_info self)
                                  then bi_name (eng_body_info self ! i)
                                  else ''Body-'' @ str_of_nat i) msg
                | Inr orb \<Rightarrow>
                    Elements \<lparr>oe_name = (if i < length (eng_body_info self)
                                          then bi_name (eng_body_info self ! i)
                                          else ''Body-'' @ str_of_nat i),
                      oe_a = py_round (o_a orb) 6,
                      oe_e = py_round (o_e orb) 6,
                      oe_inc = py_round (o_inc orb * 180 / pi) 3,
                      oe_Omega = py_round (o_Omega orb * 180 / pi) 3,
                      oe_omega = py_round (o_omega orb * 180 / pi) 3,
                      oe_f = py_round (o_f orb * 180 / pi) 3,
                      oe_P = py_round (o_P orb) 6,
                      oe_n = py_round (o_n orb) 6\<rparr>))"
proof -
  have big: "\<not> sim_N (h ! a) < 2"
    using N by (simp add: sim_N_def ps)
  have len: "length (get_orbital_elements orbit_of h self) = length ps - 1"
    using sim big by (simp add: get_orbital_elements_def Let_def sim_N_def ps)
  have nth: "[1..<length ps] ! (i - 1) = i" if "1 \<le> i" "i < length ps" for i
    using that by simp
  have ent: "get_orbital_elements orbit_of h self ! (i - 1) =
               (case orbit_of (ps ! i) (ps ! 0) of
                  Inl msg \<Rightarrow>
                    ElementError (if i < length (eng_body_info self)
                                  then bi_name (eng_body_info self ! i)
                                  else ''Body-'' @ str_of_nat i) msg
                | Inr orb \<Rightarrow>
                    Elements \<lparr>oe_name = (if i < length (eng_body_info self)
                                          then bi_name (eng_body_info self ! i)
                                          else ''Body-'' @ str_of_nat i),
                      oe_a = py_round (o_a orb) 6,
                      oe_e = py_round (o_e orb) 6,
                      oe_inc = py_round (o_inc orb * 180 / pi) 3,
                      oe_Omega = py_round (o_Omega orb * 180 / pi) 3,
                      oe_omega = py_round (o_omega orb * 180 / pi) 3,
                      oe_f = py_round (o_f orb * 180 / pi) 3,
                      oe_P = py_round (o_P orb) 6,
                      oe_n = py_round (o_n orb) 6\<rparr>)" if "1 \<le> i" "i < length ps" for i
  proof -
    have "i - 1 < length [1..<length ps]"
      using that by simp
    then show ?thesis
      using sim big nth [OF that]
      by (simp add: get_orbital_elements_def Let_def sim_N_def ps [symmetric] del: upt_Suc
               split: sum.splits)
  qed
  show ?thesis
    using len ent by blast
qed

text \<open>
  The theorem on the sample session: the planet gets its elements, the probe at the
  primary's position gets an error entry, and both entries are returned.
\<close>

theorem orbital_elements_per_body_witness:
  "length (get_orbital_elements sample_orbit_service [three_body_sim] loaded_engine) = 2
   \<and> (\<exists>el. get_orbital_elements sample_orbit_service [three_body_sim] loaded_engine ! 0 = Elements el
           \<and> oe_name el = ''Earth'' \<and> oe_a el = 1)
   \<and> get_orbital_elements sample_orbit_service [three_body_sim] loaded_engine ! 1
        = ElementError ''Probe'' ''radial distance of zero from primary''"
proof -
  define ps where "ps = sim_particles three_body_sim"
  have sim: "eng_sim loaded_engine = Some 0"
    by (simp add: loaded_engine_def)
  have ps: "ps = sim_particles ([three_body_sim] ! 0)"
    by (simp add: ps_def)
  have N: "2 \<le> length ps"
    by (simp add: ps_def three_body_sim_def)
  note inst = orbital_elements_per_body [OF sim ps N, of sample_orbit_service]
  have len: "length ps = 3"
    by (simp add: ps_def three_body_sim_def)
  have earth: "sample_orbit_service (ps ! 1) (ps ! 0) =
      Inr \<lparr>o_a = 1, o_e = 0, o_inc = 0, o_Omega = 0, o_omega = 0, o_f = 0, o_P = 1, o_n = 2 * pi\<rparr>"
    by (simp add: ps_def three_body_sim_def sample_orbit_service_def)
  have probe: "sample_orbit_service (ps ! 2) (ps ! 0) = Inl ''radial distance of zero from primary''"
    by (simp add: ps_def three_body_sim_def sample_orbit_service_def)
  have one: "py_round 1 6 = 1"
    by (simp add: py_round_def round_half_even_def)
  have e1: "get_orbital_elements sample_orbit_service [three_body_sim] loaded_engine ! (1 - 1) =
      Elements \<lparr>oe_name = ''Earth'', oe_a = 1, oe_e = py_round 0 6,
        oe_inc = py_round (0 * 180 / pi) 3, oe_Omega = py_round (0 * 180 / pi) 3,
        oe_omega = py_round (0 * 180 / pi) 3, oe_f = py_round (0 * 180 / pi) 3,
        oe_P = 1, oe_n = py_round (2 * pi) 6\<rparr>"
    using inst [THEN conjunct2, rule_format, of 1, unfolded earth] len
    by (simp add: one loaded_engine_def)
  have e2: "get_orbital_elements sample_orbit_service [three_body_sim] loaded_engine ! (2 - 1) =
      ElementError ''Probe'' ''radial distance of zero from primary''"
    using inst [THEN conjunct2, rule_format, of 2, unfolded probe] len
    by (simp add: loaded_engine_def)
  show ?thesis
    using inst [THEN conjunct1] len e1 e2 by simp
qed

subsection \<open>get\_trajectories\<close>







section \<open>Properties of the analytic orbit solver\<close>

lemma newton_step_length: "length E = length M \<Longrightarrow> length (newton_step M e E) = length M"
  by (simp add: newton_step_def)

lemma newton_funpow_length:
  "length E = length M \<Longrightarrow> length ((newton_step M e ^^ k) E) = length M"
  by (induction k) (simp_all add: newton_step_length)

lemma kepler_update_eq:
  "length E = length M \<Longrightarrow>
     map2 (\<lambda>x d. x + d) E (map2 (\<lambda>m x. (m - x + e * sin x) / (1 - e * cos x)) M E)
       = newton_step M e E"
proof (induction M arbitrary: E)
  case Nil
  then show ?case by (simp add: newton_step_def)
next
  case (Cons m M)
  then obtain x E' where E: "E = x # E'" and "length E' = length M"
    by (cases E) auto
  then show ?case
    using Cons.IH [of E'] by (simp add: newton_step_def)
qed

lemma kepler_max_eq:
  "Max (set (map abs (map2 (\<lambda>m x. (m - x + e * sin x) / (1 - e * cos x)) M E)))
     = max_correction M e E"
proof -
  have "map abs (map2 (\<lambda>m x. (m - x + e * sin x) / (1 - e * cos x)) M E)
          = map2 (\<lambda>m x. \<bar>(m - x + e * sin x) / (1 - e * cos x)\<bar>) M E"
    by (simp add: case_prod_unfold)
  then show ?thesis
    by (simp only: max_correction_def)
qed

lemma kepler_loop_spec:
  assumes "M \<noteq> []" and "length E = length M"
  shows "\<exists>k. k \<le> n \<and> (1 \<le> n \<longrightarrow> 1 \<le> k)
           \<and> kepler_loop n M e tol E = Inr ((newton_step M e ^^ k) E)
           \<and> (\<forall>j<k - 1. \<not> max_correction M e ((newton_step M e ^^ j) E) < tol)
           \<and> (k < n \<longrightarrow> max_correction M e ((newton_step M e ^^ (k - 1)) E) < tol)"
  using assms(2)
proof (induction n arbitrary: E)
  case 0
  show ?case by simp
next
  case (Suc n)
  define dE where "dE = map2 (\<lambda>m x. (m - x + e * sin x) / (1 - e * cos x)) M E"
  have ne: "dE \<noteq> []"
    using assms(1) Suc.prems by (cases M; cases E) (simp_all add: dE_def)
  have upd: "map2 (\<lambda>x d. x + d) E dE = newton_step M e E"
    unfolding dE_def by (rule kepler_update_eq [OF Suc.prems])
  have mx: "Max (set (map abs dE)) = max_correction M e E"
    unfolding dE_def by (rule kepler_max_eq)
  have unf: "kepler_loop (Suc n) M e tol E =
      (if max_correction M e E < tol then Inr (newton_step M e E)
       else kepler_loop n M e tol (newton_step M e E))"
  proof -
    have "kepler_loop (Suc n) M e tol E =
      (if dE = [] then Inl ValueError
       else if Max (set (map abs dE)) < tol then Inr (map2 (\<lambda>x d. x + d) E dE)
       else kepler_loop n M e tol (map2 (\<lambda>x d. x + d) E dE))"
      by (simp only: kepler_loop.simps Let_def dE_def)
    then show ?thesis
      using ne by (simp only: upd mx if_False)
  qed
  show ?case
  proof (cases "max_correction M e E < tol")
    case True
    then show ?thesis
      unfolding unf by (intro exI [of _ 1]) simp
  next
    case False
    have len: "length (newton_step M e E) = length M"
      by (rule newton_step_length [OF Suc.prems])
    from Suc.IH [OF len] obtain k where k: "k \<le> n" "1 \<le> n \<longrightarrow> 1 \<le> k"
        and run: "kepler_loop n M e tol (newton_step M e E)
                    = Inr ((newton_step M e ^^ k) (newton_step M e E))"
        and before: "\<forall>j<k - 1. \<not> max_correction M e
                        ((newton_step M e ^^ j) (newton_step M e E)) < tol"
        and last: "k < n \<longrightarrow> max_correction M e
                        ((newton_step M e ^^ (k - 1)) (newton_step M e E)) < tol"
      by blast
    have shift: "(newton_step M e ^^ j) (newton_step M e E) = (newton_step M e ^^ Suc j) E" for j
      by (simp add: funpow_swap1)
    have "kepler_loop (Suc n) M e tol E = Inr ((newton_step M e ^^ Suc k) E)"
      unfolding unf using False run by (simp add: funpow_swap1)
    moreover have "\<not> max_correction M e ((newton_step M e ^^ j) E) < tol" if "j < Suc k - 1" for j
    proof (cases j)
      case 0
      then show ?thesis using False by simp
    next
      case (Suc j')
      then have "j' < k - 1" using that by simp
      then have "\<not> max_correction M e ((newton_step M e ^^ j') (newton_step M e E)) < tol"
        using before by blast
      then show ?thesis
        unfolding shift Suc .
    qed
    moreover have "max_correction M e ((newton_step M e ^^ (Suc k - 1)) E) < tol" if "Suc k < Suc n"
    proof -
      have "k < n" using that by simp
      then have "1 \<le> k" and "max_correction M e
                        ((newton_step M e ^^ (k - 1)) (newton_step M e E)) < tol"
        using k(2) last by simp_all
      then have "Suc (k - 1) = Suc k - 1"
        and "max_correction M e ((newton_step M e ^^ Suc (k - 1)) E) < tol"
        unfolding shift [symmetric] by simp_all
      then show ?thesis
        by (simp only:)
    qed
    ultimately show ?thesis
      using k(1) by (intro exI [of _ "Suc k"]) simp
  qed
qed

lemma linspace_length: "length (linspace start stop num) = num"
  by (simp add: linspace_def)

lemma linspace_nth:
  assumes "i < num"
  shows "linspace 0 stop num ! i = real i * (stop / real (num - 1))"
  using assms by (auto simp: linspace_def)

lemma map2_same: "map2 f (map g xs) (map h xs) = map (\<lambda>x. f (g x) (h x)) xs"
  by (induction xs) simp_all

lemma compute_orbit_unfold:
  assumes "SOLAR_SYSTEM (lower body_name) = Some body" and "0 \<le> steps"
      and "solve_kepler (map (\<lambda>t. 2 * pi * t / el_period body) (linspace 0 duration (nat steps)))
             (el_e body) (1 / 10 ^ 10) = Inr E"
  shows "\<exists>orb. compute_orbit body_name duration steps = Inr (Some orb)
           \<and> orb_t orb = linspace 0 duration (nat steps)
           \<and> orb_r orb = map (\<lambda>E. el_a body * (1 - (el_e body)\<^sup>2)
                                    / (1 + el_e body * cos (half_angle_true_anomaly (el_e body) E))) E
           \<and> orb_x orb = map (\<lambda>E. el_a body * (1 - (el_e body)\<^sup>2)
                                    / (1 + el_e body * cos (half_angle_true_anomaly (el_e body) E))
                                  * cos (half_angle_true_anomaly (el_e body) E)) E
           \<and> orb_y orb = map (\<lambda>E. el_a body * (1 - (el_e body)\<^sup>2)
                                    / (1 + el_e body * cos (half_angle_true_anomaly (el_e body) E))
                                  * sin (half_angle_true_anomaly (el_e body) E)) E
           \<and> orb_v orb = map (\<lambda>E. sqrt (4 * pi\<^sup>2 *
                                 (2 / (el_a body * (1 - (el_e body)\<^sup>2)
                                    / (1 + el_e body * cos (half_angle_true_anomaly (el_e body) E)))
                                  - 1 / el_a body)) * (365.25 / (2 * pi))) E"
proof -
  have neg: "\<not> steps < 0"
    using assms(2) by simp
  show ?thesis
    unfolding compute_orbit_def Let_def assms(1) option.case if_not_P [OF neg] assms(3) sum.case
      map_map comp_def map2_same half_angle_true_anomaly_def [symmetric]
    by simp
qed

text \<open>
  The steps of \<open>compute_orbit\<close> before the speed.  For a known body and at least one
  sample, the sample times \<open>T\<close> are equally spaced from 0 to the duration; with the mean
  anomalies \<open>M = 2 * pi * t / P\<close>, the eccentric anomalies are the \<open>k\<close>-th
  Newton-Raphson iterate from \<open>E = M\<close>, where \<open>k\<close> is the first pass (of at most 100)
  whose maximum absolute correction is below \<open>1e-10\<close>, or 100 when there is none; the
  true anomaly has the half-angle arctangent form, the radius is
  \<open>a * (1 - e^2) / (1 + e * cos nu)\<close> and the coordinates are
  \<open>(r * cos nu, r * sin nu)\<close>.
\<close>

lemma compute_orbit_other_steps:
  assumes body: "SOLAR_SYSTEM (lower body_name) = Some body"
      and steps: "1 \<le> steps"
      and n: "n = nat steps"
      and a: "a = el_a body" and e: "e = el_e body" and P: "P = el_period body"
      and T: "T = linspace 0 duration n"
      and M: "M = map (\<lambda>t. 2 * pi * t / P) T"
  shows "\<exists>orb E k.
           compute_orbit body_name duration steps = Inr (Some orb)
         \<and> orb_t orb = T \<and> length T = n
         \<and> (\<forall>i<n. T ! i = real i * (duration / real (n - 1)))
         \<and> 1 \<le> k \<and> k \<le> 100
         \<and> E = (newton_step M e ^^ k) M
         \<and> (\<forall>j<k - 1. \<not> max_correction M e ((newton_step M e ^^ j) M) < 1 / 10 ^ 10)
         \<and> (k < 100 \<longrightarrow> max_correction M e ((newton_step M e ^^ (k - 1)) M) < 1 / 10 ^ 10)
         \<and> length E = n \<and> length (orb_r orb) = n \<and> length (orb_x orb) = n
         \<and> length (orb_y orb) = n \<and> length (orb_v orb) = n
         \<and> (\<forall>i<n.
               orb_r orb ! i = a * (1 - e\<^sup>2) / (1 + e * cos (half_angle_true_anomaly e (E ! i)))
             \<and> orb_x orb ! i = orb_r orb ! i * cos (half_angle_true_anomaly e (E ! i))
             \<and> orb_y orb ! i = orb_r orb ! i * sin (half_angle_true_anomaly e (E ! i)))"
proof -
  have npos: "1 \<le> n"
    using steps n by simp
  have lT: "length T = n"
    by (simp add: T linspace_length)
  have nT: "\<forall>i<n. T ! i = real i * (duration / real (n - 1))"
    by (simp add: T linspace_nth)
  have lM: "length M = n" and Mne: "M \<noteq> []"
    using lT npos by (auto simp: M)
  obtain k where k: "k \<le> 100" "1 \<le> k"
      and run: "kepler_loop 100 M e (1 / 10 ^ 10) M = Inr ((newton_step M e ^^ k) M)"
      and before: "\<forall>j<k - 1. \<not> max_correction M e ((newton_step M e ^^ j) M) < 1 / 10 ^ 10"
      and last: "k < 100 \<longrightarrow> max_correction M e ((newton_step M e ^^ (k - 1)) M) < 1 / 10 ^ 10"
    using kepler_loop_spec [where M = M and E = M and n = 100 and e = e and tol = "1 / 10 ^ 10"] Mne
    by auto
  define E where "E = (newton_step M e ^^ k) M"
  have lE: "length E = n"
    unfolding E_def using newton_funpow_length [where E = M and M = M and e = e and k = k] lM by simp
  have sk: "solve_kepler (map (\<lambda>t. 2 * pi * t / el_period body) (linspace 0 duration (nat steps)))
             (el_e body) (1 / 10 ^ 10) = Inr E"
    using run unfolding solve_kepler_def E_def M T n P e .
  have st: "0 \<le> steps"
    using steps by simp
  obtain orb where orb: "compute_orbit body_name duration steps = Inr (Some orb)"
      and ot: "orb_t orb = T"
      and orr: "orb_r orb = map (\<lambda>E. a * (1 - e\<^sup>2) / (1 + e * cos (half_angle_true_anomaly e E))) E"
      and ox: "orb_x orb = map (\<lambda>E. a * (1 - e\<^sup>2) / (1 + e * cos (half_angle_true_anomaly e E))
                                  * cos (half_angle_true_anomaly e E)) E"
      and oy: "orb_y orb = map (\<lambda>E. a * (1 - e\<^sup>2) / (1 + e * cos (half_angle_true_anomaly e E))
                                  * sin (half_angle_true_anomaly e E)) E"
      and ov: "orb_v orb = map (\<lambda>E. sqrt (4 * pi\<^sup>2 *
                                 (2 / (a * (1 - e\<^sup>2) / (1 + e * cos (half_angle_true_anomaly e E)))
                                  - 1 / a)) * (365.25 / (2 * pi))) E"
    using compute_orbit_unfold [OF body st sk] unfolding a e T n by blast
  have lens: "length (orb_r orb) = n" "length (orb_x orb) = n"
      "length (orb_y orb) = n" "length (orb_v orb) = n"
    by (simp_all add: orr ox oy ov lE)
  have each: "\<forall>i<n.
               orb_r orb ! i = a * (1 - e\<^sup>2) / (1 + e * cos (half_angle_true_anomaly e (E ! i)))
             \<and> orb_x orb ! i = orb_r orb ! i * cos (half_angle_true_anomaly e (E ! i))
             \<and> orb_y orb ! i = orb_r orb ! i * sin (half_angle_true_anomaly e (E ! i))"
    by (simp add: orr ox oy ov lE)
  show ?thesis
    using orb ot lT nT k before last lE lens each
    by (intro exI [of _ orb] exI [of _ E] exI [of _ k]) (simp add: E_def)
qed

lemma earth_lookup:
  "SOLAR_SYSTEM (lower ''earth'') = Some \<lparr>el_a = 1.000, el_e = 0.0167, el_i = 0.00,
      el_period = 365.25, el_color = ''#4fffb0'', el_mass = 1.000\<rparr>"
  by (simp add: SOLAR_SYSTEM_def lower_def lower_char_def)

lemma kepler_single_zero:
  "solve_kepler [0] e (1 / 10 ^ 10) = Inr [0]"
proof -
  have "kepler_loop (Suc 99) [0] e (1 / 10 ^ 10) [0] = Inr [0]"
    by (simp only: kepler_loop.simps Let_def) simp
  then show ?thesis
    by (simp add: solve_kepler_def)
qed

lemma true_anomaly_zero:
  assumes "e < 1"
  shows "half_angle_true_anomaly e 0 = 0"
  using assms by (simp add: half_angle_true_anomaly_def arctan2_def)

lemma earth_one_sample:
  "\<exists>orb. compute_orbit ''earth'' 365 1 = Inr (Some orb)
       \<and> orb_t orb = [0]
       \<and> orb_r orb = [9833 / 10000]
       \<and> orb_x orb = [9833 / 10000]
       \<and> orb_y orb = [0]
       \<and> orb_v orb = [sqrt (4 * pi\<^sup>2 * (2 / (9833 / 10000) - 1 / 1)) * (365.25 / (2 * pi))]"
proof -
  define body where "body = \<lparr>el_a = 1.000, el_e = 0.0167, el_i = 0.00,
      el_period = 365.25, el_color = ''#4fffb0'', el_mass = 1.000 :: real\<rparr>"
  have look: "SOLAR_SYSTEM (lower ''earth'') = Some body"
    unfolding body_def by (rule earth_lookup)
  have lin: "linspace 0 365 (nat 1) = [0]"
    by (simp add: linspace_def)
  have sk: "solve_kepler (map (\<lambda>t. 2 * pi * t / el_period body) (linspace 0 365 (nat 1)))
             (el_e body) (1 / 10 ^ 10) = Inr [0]"
    unfolding lin using kepler_single_zero [of "el_e body"] by simp
  have ta: "half_angle_true_anomaly (el_e body) 0 = 0"
    by (rule true_anomaly_zero) (simp add: body_def)
  have r: "el_a body * (1 - (el_e body)\<^sup>2) / (1 + el_e body * cos 0) = 9833 / 10000"
    by (simp add: body_def power2_eq_square)
  have a: "el_a body = 1"
    by (simp add: body_def)
  have maps: "map f [0 :: real] = [f 0]" for f :: "real \<Rightarrow> real"
    by simp
  obtain orb where "compute_orbit ''earth'' 365 1 = Inr (Some orb)"
      "orb_t orb = linspace 0 365 (nat 1)"
      "orb_r orb = map (\<lambda>E. el_a body * (1 - (el_e body)\<^sup>2)
                                    / (1 + el_e body * cos (half_angle_true_anomaly (el_e body) E))) [0]"
      "orb_x orb = map (\<lambda>E. el_a body * (1 - (el_e body)\<^sup>2)
                                    / (1 + el_e body * cos (half_angle_true_anomaly (el_e body) E))
                                  * cos (half_angle_true_anomaly (el_e body) E)) [0]"
      "orb_y orb = map (\<lambda>E. el_a body * (1 - (el_e body)\<^sup>2)
                                    / (1 + el_e body * cos (half_angle_true_anomaly (el_e body) E))
                                  * sin (half_angle_true_anomaly (el_e body) E)) [0]"
      "orb_v orb = map (\<lambda>E. sqrt (4 * pi\<^sup>2 *
                                 (2 / (el_a body * (1 - (el_e body)\<^sup>2)
                                    / (1 + el_e body * cos (half_angle_true_anomaly (el_e body) E)))
                                  - 1 / el_a body)) * (365.25 / (2 * pi))) [0]"
    using compute_orbit_unfold [OF look _ sk] by auto
  then have "compute_orbit ''earth'' 365 1 = Inr (Some orb)
       \<and> orb_t orb = [0]
       \<and> orb_r orb = [9833 / 10000]
       \<and> orb_x orb = [9833 / 10000 * cos 0]
       \<and> orb_y orb = [9833 / 10000 * sin 0]
       \<and> orb_v orb = [sqrt (4 * pi\<^sup>2 * (2 / (9833 / 10000) - 1 / el_a body)) * (365.25 / (2 * pi))]"
    unfolding maps ta r lin by blast
  then show ?thesis
    unfolding a by (intro exI [of _ orb]) simp
qed

lemma earth_vis_viva_bounds:
  fixes c :: real
  assumes "c = sqrt (4 * pi\<^sup>2 * (2 / (9833 / 10000) - 1 / 1))"
  shows "c < 7" and "371 < c * (365.25 / (2 * pi))" and "c / 365.25 < 0.02"
proof -
  define q :: real where "q = 2 / (9833 / 10000) - 1 / 1"
  define w where "w = sqrt q"
  have "(1.0158 :: real)\<^sup>2 < q"
    by (simp add: q_def power2_eq_square)
  then have lo: "1.0158 < w"
    unfolding w_def by (rule real_less_rsqrt)
  have "q < (1.018 :: real)\<^sup>2"
    by (simp add: q_def power2_eq_square)
  then have hi: "w < 1.018"
    unfolding w_def by (intro real_less_lsqrt) simp_all
  have "sqrt (4 * pi\<^sup>2 * q) = 2 * pi * w"
    by (simp add: real_sqrt_mult w_def)
  then have c: "c = 2 * pi * w"
    unfolding assms q_def by simp
  have wpos: "0 \<le> w"
    using lo by simp
  have "pi * w < 3.1426 * 1.018"
    using pi_upper hi _ wpos by (rule mult_strict_mono) simp
  then show "c < 7"
    unfolding c by simp
  then show "c / 365.25 < 0.02"
    by simp
  have "c * (365.25 / (2 * pi)) = 365.25 * w"
    unfolding c by simp
  then show "371 < c * (365.25 / (2 * pi))"
    using lo by simp
qed


text \<open>
  Claim C5 (a defect of the code in the speed).  The claim gives the speed as the
  vis-viva value \<open>sqrt (GM * (2 / r - 1 / a))\<close>, which is in AU per year for
  \<open>GM = 4 * pi^2\<close>.  The code labels its speed AU per day and multiplies the vis-viva
  value by \<open>365.25 / (2 * pi)\<close>.  For Earth with one sample the radius is \<open>0.9833\<close>
  and the returned speed is above 371, while the vis-viva value is below 7 AU per
  year, that is below 0.02 AU per day.
\<close>

theorem earth_speed_not_vis_viva:
  "orb_r (the (projr (compute_orbit ''earth'' 365 1))) = [9833 / 10000]
   \<and> orb_v (the (projr (compute_orbit ''earth'' 365 1)))
       = [sqrt (4 * pi\<^sup>2 * (2 / (9833 / 10000) - 1 / 1)) * (365.25 / (2 * pi))]
   \<and> orb_v (the (projr (compute_orbit ''earth'' 365 1)))
       \<noteq> [sqrt (4 * pi\<^sup>2 * (2 / (9833 / 10000) - 1 / 1))]
   \<and> 371 < hd (orb_v (the (projr (compute_orbit ''earth'' 365 1))))
   \<and> sqrt (4 * pi\<^sup>2 * (2 / (9833 / 10000) - 1 / 1)) < 7
   \<and> sqrt (4 * pi\<^sup>2 * (2 / (9833 / 10000) - 1 / 1)) / 365.25 < 0.02"
proof -
  define c where "c = sqrt (4 * pi\<^sup>2 * (2 / (9833 / 10000) - 1 / 1))"
  obtain orb where orb: "compute_orbit ''earth'' 365 1 = Inr (Some orb)"
      and r: "orb_r orb = [9833 / 10000]"
      and v: "orb_v orb = [c * (365.25 / (2 * pi))]"
    using earth_one_sample unfolding c_def by blast
  note b = earth_vis_viva_bounds [OF c_def]
  have "c * (365.25 / (2 * pi)) \<noteq> c"
    using b(1,2) by linarith
  then show ?thesis
    using orb r v b unfolding c_def [symmetric] by simp
qed

end
